theory Spec2Isabelle
  imports Main "HOL-Library.Word" "HOL-Library.Monad_Syntax"
begin

unbundle bit_operations_syntax

section \<open>Machine types\<close>

text \<open>
  Go's \<^verbatim>\<open>byte\<close>, \<^verbatim>\<open>uint16\<close> and \<^verbatim>\<open>uint64\<close> are words of that width: arithmetic wraps.
  Go's \<^verbatim>\<open>int\<close> is modelled as \<^typ>\<open>int\<close>; the counters held in such fields (scanline, tick,
  shift count, joypad index) stay far below \<open>2 ^ 63\<close> in every state considered here.
  A fixed-size array \<^verbatim>\<open>[n]T\<close> indexed by a value that the code masks or whose type bounds it
  is a total function from the index; an index that can leave the array is guarded where it
  is used, and the guard failing is the Go run-time panic (the value \<open>None\<close>).
\<close>

type_synonym byte = "8 word"
type_synonym uint16 = "16 word"
type_synonym uint64 = "64 word"

section \<open>MMC3 (mapper 4): scanline counter\<close>

record Mapper4 =
  m4_ram :: "uint16 \<Rightarrow> byte"
  m4_prgBank :: "int list"
  m4_prgBankOffset :: "uint16 list"
  chgBank :: "int list"
  chgBankOffset :: "uint16 list"
  bankRegisters :: "byte list"
  selectedBankRegister :: int
  prgBankSwap :: bool
  chrInversion :: bool
  irqEnable :: bool
  irqReloadPending :: bool
  irqLatch :: byte
  irqCounter :: byte
  irqAssert :: bool

text \<open>\<^verbatim>\<open>func (m *Mapper4) NextScanline()\<close>\<close>

definition Mapper4_NextScanline :: "Mapper4 \<Rightarrow> Mapper4" where
  "Mapper4_NextScanline m =
     (let m1 = (if irqCounter m = 0 \<or> irqReloadPending m
                then m\<lparr>irqCounter := irqLatch m, irqReloadPending := False\<rparr>
                else m\<lparr>irqCounter := irqCounter m - 1\<rparr>)
      in if irqCounter m1 = 0 \<and> irqEnable m1 then m1\<lparr>irqAssert := True\<rparr> else m1)"

text \<open>\<^verbatim>\<open>func (m *Mapper4) IRQ() bool\<close>: the result and the mapper after the poll.\<close>

definition Mapper4_IRQ :: "Mapper4 \<Rightarrow> bool \<times> Mapper4" where
  "Mapper4_IRQ m = (let isIRQ = irqAssert m in (isIRQ, m\<lparr>irqAssert := False\<rparr>))"

section \<open>Cartridge\<close>

datatype Mirror_mode = horizontal | vertical | singleLow | singleHigh | fourScreen

text \<open>
  Modelled from the spec: the declaration of the \<^verbatim>\<open>Cartridge\<close> struct is not among the sources.
  The mappers use its fields \<^verbatim>\<open>PRG\<close>, \<^verbatim>\<open>CHR\<close>, \<^verbatim>\<open>SRAM\<close> (sequences of banks, each a sequence of
  bytes) and \<^verbatim>\<open>Mirror\<close> (one of the five mirroring modes of the data model). The field
  \<^verbatim>\<open>CHR\<close> is named \<open>CHRbanks\<close> here (\<open>CHR\<close> is the character literal of HOL).
\<close>

record Cartridge =
  PRG :: "byte list list"
  CHRbanks :: "byte list list"
  SRAM :: "byte list list"
  Mirror :: Mirror_mode

text \<open>
  \<^verbatim>\<open>banks[b][a]\<close> on a Go slice of slices: an index outside either slice panics (\<open>None\<close>).
\<close>

definition slice_get :: "byte list list \<Rightarrow> int \<Rightarrow> uint16 \<Rightarrow> byte option" where
  "slice_get banks b a =
     (if 0 \<le> b \<and> b < int (length banks)
      then (if unat a < length (banks ! nat b) then Some (banks ! nat b ! unat a) else None)
      else None)"

definition slice_set :: "byte list list \<Rightarrow> int \<Rightarrow> uint16 \<Rightarrow> byte \<Rightarrow> byte list list option" where
  "slice_set banks b a val =
     (if 0 \<le> b \<and> b < int (length banks)
      then (if unat a < length (banks ! nat b)
            then Some (banks[nat b := (banks ! nat b)[unat a := val]]) else None)
      else None)"

section \<open>MMC1 (mapper 1)\<close>

text \<open>
  \<^verbatim>\<open>Mapper1\<close> embeds \<^verbatim>\<open>*Cartridge\<close>: the record extends the cartridge. The two-element arrays
  \<^verbatim>\<open>chrBank\<close> and \<^verbatim>\<open>chrBankOffset\<close> are pairs (index 0 is \<open>fst\<close>, index 1 is \<open>snd\<close>).
\<close>

record Mapper1 = Cartridge +
  shiftRegisterCount :: int
  shiftRegister :: byte
  prgBankMode :: int
  prgBank :: int
  chr8kMode :: bool
  chrBank :: "int \<times> int"
  chrBankOffset :: "uint16 \<times> uint16"

definition NewMapper1 :: "Cartridge \<Rightarrow> Mapper1" where
  "NewMapper1 cart =
     \<lparr>PRG = PRG cart, CHRbanks = CHRbanks cart, SRAM = SRAM cart, Mirror = Mirror cart,
      shiftRegisterCount = 0, shiftRegister = 0, prgBankMode = 3, prgBank = 0,
      chr8kMode = False, chrBank = (0, 0), chrBankOffset = (0, 0)\<rparr>"

text \<open>\<^verbatim>\<open>func (m *Mapper1) Read(address uint16, isPPU bool) byte\<close>; \<^verbatim>\<open>log.Fatalf\<close> ends the
  process (\<open>None\<close>).\<close>

definition Mapper1_Read :: "Mapper1 \<Rightarrow> uint16 \<Rightarrow> bool \<Rightarrow> byte option" where
  "Mapper1_Read m address isPPU =
     (if isPPU then
        (if chr8kMode m then
           (if address < 0x2000 then slice_get (CHRbanks m) (fst (chrBank m)) address else None)
         else if address < 0x1000
           then slice_get (CHRbanks m) (fst (chrBank m)) (fst (chrBankOffset m) + address)
         else if address < 0x2000
           then slice_get (CHRbanks m) (snd (chrBank m)) (snd (chrBankOffset m) + address - 0x1000)
         else None)
      else if 0x6000 \<le> address \<and> address \<le> 0x7FFF then slice_get (SRAM m) 0 (address - 0x6000)
      else if address < 0x6000 then None
      else if prgBankMode m = 0 \<or> prgBankMode m = 1 then
        (if address < 0xC000 then slice_get (PRG m) (prgBank m AND NOT 1) (address - 0x8000)
         else slice_get (PRG m) (prgBank m OR 1) (address - 0xC000))
      else if prgBankMode m = 2 then
        (if address < 0xC000 then slice_get (PRG m) 0 (address - 0x8000)
         else slice_get (PRG m) (prgBank m) (address - 0xC000))
      else if prgBankMode m = 3 then
        (if address < 0xC000 then slice_get (PRG m) (prgBank m) (address - 0x8000)
         else slice_get (PRG m) (int (length (PRG m)) - 1) (address - 0xC000))
      else Some 0)"

text \<open>
  The register update of \<^verbatim>\<open>Mapper1.Write\<close>: the \<^verbatim>\<open>switch address & 0xE000\<close> that runs when the
  fifth bit has been shifted in. It is written inline in the source.
\<close>

definition Mapper1_latch :: "uint16 \<Rightarrow> Mapper1 \<Rightarrow> Mapper1" where
  "Mapper1_latch address m =
     (let sr = shiftRegister m; sel = address AND 0xE000 in
      if sel = 0x8000 then
        (let m1 = (if sr AND 0x3 = 0 then m\<lparr>Mirror := singleLow\<rparr>
                   else if sr AND 0x3 = 1 then m\<lparr>Mirror := singleHigh\<rparr>
                   else if sr AND 0x3 = 2 then m\<lparr>Mirror := vertical\<rparr>
                   else if sr AND 0x3 = 3 then m\<lparr>Mirror := horizontal\<rparr>
                   else m)
         in m1\<lparr>chr8kMode := (sr AND 0x10 = 0), prgBankMode := uint (drop_bit 2 (sr AND 0xC))\<rparr>)
      else if sel = 0xA000 then
        m\<lparr>chrBank := (uint (drop_bit 1 (sr AND 0x1E)), snd (chrBank m)),
          chrBankOffset := (ucast (sr AND 0x1) * 0x1000, snd (chrBankOffset m))\<rparr>
      else if sel = 0xC000 then
        m\<lparr>chrBank := (fst (chrBank m), uint (drop_bit 1 (sr AND 0x1E))),
          chrBankOffset := (fst (chrBankOffset m), ucast (sr AND 0x1) * 0x1000)\<rparr>
      else if sel = 0xE000 then m\<lparr>prgBank := uint (sr AND 0xF)\<rparr>
      else m)"

text \<open>\<^verbatim>\<open>func (m *Mapper1) Write(address uint16, value byte, isPPU bool)\<close>; \<^verbatim>\<open>log.Printf\<close> only
  logs.\<close>

definition Mapper1_Write :: "Mapper1 \<Rightarrow> uint16 \<Rightarrow> byte \<Rightarrow> bool \<Rightarrow> Mapper1 option" where
  "Mapper1_Write m address val isPPU =
     (if isPPU then
        (if address < 0x2000 then
           (if chr8kMode m then
              (if address < 0x2000
               then map_option (\<lambda>c. m\<lparr>CHRbanks := c\<rparr>) (slice_set (CHRbanks m) (fst (chrBank m)) address val)
               else Some m)
            else if address < 0x1000 then
              map_option (\<lambda>c. m\<lparr>CHRbanks := c\<rparr>)
                (slice_set (CHRbanks m) (fst (chrBank m)) (fst (chrBankOffset m) + address) val)
            else if address < 0x2000 then
              map_option (\<lambda>c. m\<lparr>CHRbanks := c\<rparr>)
                (slice_set (CHRbanks m) (snd (chrBank m)) (snd (chrBankOffset m) + address - 0x1000) val)
            else Some m)
         else Some m)
      else if 0x6000 \<le> address \<and> address < 0x8000 then
        map_option (\<lambda>r. m\<lparr>SRAM := r\<rparr>) (slice_set (SRAM m) 0 (address AND 0x1FFF) val)
      else if 0x8000 \<le> address then
        (if val AND 0x80 \<noteq> 0 then Some (m\<lparr>shiftRegisterCount := 0\<rparr>)
         else
           (let m1 = m\<lparr>shiftRegisterCount := shiftRegisterCount m + 1\<rparr>;
                m2 = m1\<lparr>shiftRegister := drop_bit 1 (shiftRegister m1)\<rparr>;
                m3 = m2\<lparr>shiftRegister := shiftRegister m2 OR push_bit 4 (val AND 1)\<rparr>
            in if shiftRegisterCount m3 = 5
               then Some ((Mapper1_latch address m3)\<lparr>shiftRegisterCount := 0\<rparr>)
               else Some m3))
      else Some m)"

text \<open>\<^verbatim>\<open>func (m *Mapper1) IRQ() bool\<close> and \<^verbatim>\<open>func (m *Mapper1) NextScanline()\<close>\<close>

definition Mapper1_IRQ :: "Mapper1 \<Rightarrow> bool \<times> Mapper1" where
  "Mapper1_IRQ m = (False, m)"

definition Mapper1_NextScanline :: "Mapper1 \<Rightarrow> Mapper1" where
  "Mapper1_NextScanline m = m"


text \<open>
  The two statements \<^verbatim>\<open>m.shiftRegister >>= 1; m.shiftRegister |= (value & 1) << 4\<close> of
  \<^verbatim>\<open>Mapper1.Write\<close> as a function of the register and the value written, to name the
  register's contents in the lemmas.
\<close>

definition shift_in :: "byte \<Rightarrow> byte \<Rightarrow> byte" where
  "shift_in sr b = drop_bit 1 sr OR push_bit 4 (b AND 1)"

text \<open>A cartridge with one bank of each kind, all zero, for the concrete instances.\<close>

definition example_cart :: Cartridge where
  "example_cart = \<lparr>PRG = [replicate 0x4000 0], CHRbanks = [replicate 0x2000 0],
                    SRAM = [replicate 0x2000 0], Mirror = horizontal\<rparr>"

section \<open>The mapper interface\<close>

text \<open>
  \<^verbatim>\<open>type Mapper interface { Read; Write; IRQ; NextScanline }\<close>. The CPU and the PPU reach the
  mapper through \<^verbatim>\<open>Console.Cart\<close>, whose declaration is not among the sources, so the
  cartridge state \<open>'c\<close> and its methods are parameters of the console model. \<open>Read\<close> and
  \<open>Write\<close> may end the process (an index out of range, \<^verbatim>\<open>log.Fatalf\<close>): \<open>None\<close>. \<open>Read\<close>
  changes no state, \<open>IRQ\<close> and \<open>NextScanline\<close> always return, as in the four mappers of
  the sources. \<open>getMirror\<close> reads the field \<^verbatim>\<open>Cart.Mirror\<close>.
\<close>

record 'c Mapper =
  Read :: "'c \<Rightarrow> uint16 \<Rightarrow> bool \<Rightarrow> byte option"
  Write :: "'c \<Rightarrow> uint16 \<Rightarrow> byte \<Rightarrow> bool \<Rightarrow> 'c option"
  IRQ :: "'c \<Rightarrow> bool \<times> 'c"
  NextScanline :: "'c \<Rightarrow> 'c"
  getMirror :: "'c \<Rightarrow> Mirror_mode"

definition Mapper1_ops :: "Mapper1 Mapper" where
  "Mapper1_ops = \<lparr>Read = Mapper1_Read, Write = Mapper1_Write, IRQ = Mapper1_IRQ,
                   NextScanline = Mapper1_NextScanline, getMirror = Mirror\<rparr>"

section \<open>Joypad\<close>

text \<open>
  The buttons \<^verbatim>\<open>A\<close> and \<^verbatim>\<open>B\<close> are \<open>joy_A\<close> and \<open>joy_B\<close>, the index \<^verbatim>\<open>i\<close> is \<open>joy_i\<close>. The callback
  \<^verbatim>\<open>readKeys func()\<close> samples the input device and, as its documentation says, updates the
  eight buttons of the joypad: a function from the buttons to the buttons; \<open>None\<close> is \<^verbatim>\<open>nil\<close>.
\<close>

record Buttons =
  joy_A :: bool
  joy_B :: bool
  Select :: bool
  Start :: bool
  Up :: bool
  Down :: bool
  Left :: bool
  Right :: bool

record Joypad = Buttons +
  readKeys :: "(Buttons \<Rightarrow> Buttons) option"
  joy_i :: int
  strobe :: bool

text \<open>\<^verbatim>\<open>func (j *Joypad) Read() byte\<close>\<close>

definition Joypad_Read :: "Joypad \<Rightarrow> byte \<times> Joypad" where
  "Joypad_Read j =
     (let (pressed, j') =
        (if strobe j then (joy_A j, j)
         else
           (let pressed = (if joy_i j = 0 then joy_A j
                           else if joy_i j = 1 then joy_B j
                           else if joy_i j = 2 then Select j
                           else if joy_i j = 3 then Start j
                           else if joy_i j = 4 then Up j
                           else if joy_i j = 5 then Down j
                           else if joy_i j = 6 then Left j
                           else if joy_i j = 7 then Right j
                           else False);
                j1 = j\<lparr>joy_i := joy_i j + 1\<rparr>;
                j2 = (if joy_i j1 = 8 then j1\<lparr>joy_i := 0\<rparr> else j1)
            in (pressed, j2)))
      in (if pressed then 0x1 else 0x0, j'))"

text \<open>\<^verbatim>\<open>func (j *Joypad) Write(value byte)\<close>\<close>

definition Joypad_Write :: "byte \<Rightarrow> Joypad \<Rightarrow> Joypad" where
  "Joypad_Write val j =
     (let j1 = j\<lparr>joy_i := 0\<rparr>;
          j2 = (if val AND 0x1 \<noteq> 0 then j1\<lparr>strobe := True\<rparr> else j1\<lparr>strobe := False\<rparr>)
      in case readKeys j2 of
           None \<Rightarrow> j2
         | Some callback \<Rightarrow>
             (let b = callback (Buttons.truncate j2)
              in j2\<lparr>joy_A := joy_A b, joy_B := joy_B b, Select := Select b, Start := Start b,
                    Up := Up b, Down := Down b, Left := Left b, Right := Right b\<rparr>))"

section \<open>Console state\<close>

text \<open>
  A pixel \<^verbatim>\<open>*color.RGBA\<close> is \<^verbatim>\<open>nil\<close> or points into the palette: the index into the
  palette, or \<open>None\<close>. The image maps a point to its colour. The PPU registers \<^verbatim>\<open>v\<close>, \<^verbatim>\<open>t\<close>,
  \<^verbatim>\<open>x\<close>, \<^verbatim>\<open>w\<close> are \<open>ppu_v\<close>, \<open>ppu_t\<close>, \<open>ppu_x\<close>, \<open>ppu_w\<close>; the CPU registers \<^verbatim>\<open>A\<close>, \<^verbatim>\<open>X\<close>, \<^verbatim>\<open>Y\<close>
  are \<open>cpu_A\<close>, \<open>cpu_X\<close>, \<open>cpu_Y\<close>. The back-references \<^verbatim>\<open>Console\<close> of the CPU and the PPU
  are the console state that every function takes; the opcode table \<^verbatim>\<open>instructions\<close> of
  the CPU is an argument of \<open>CPU_Step\<close>.
\<close>

type_synonym RGBA = "byte \<times> byte \<times> byte \<times> byte"

record PPU =
  img :: "int \<times> int \<Rightarrow> RGBA"
  palette :: "byte \<Rightarrow> RGBA"
  Scanline :: int
  Tick :: int
  Frame :: uint64
  numCycles :: uint64
  ram :: "uint16 \<Rightarrow> byte"
  sprRAM :: "byte \<Rightarrow> byte"
  spriteTableAddress :: uint16
  backgroundTableAddress :: uint16
  flagIncrementBy32 :: bool
  flagLargeSprites :: bool
  flagNMIOnVBlank :: bool
  flagColourMode :: bool
  flagClipBackground :: bool
  flagClipSprites :: bool
  flagShowBackground :: bool
  flagShowSprites :: bool
  flagRedEmphasis :: bool
  flagGreenEmphasis :: bool
  flagBlueEmphasis :: bool
  flagVRAMWritesIgnored :: bool
  flagScanlineSpritesMax :: bool
  flagSprite0Hit :: bool
  flagVBlankOutstanding :: bool
  ppu_v :: uint16
  ppu_t :: uint16
  ppu_x :: byte
  ppu_w :: byte
  fgPixels :: "nat \<Rightarrow> byte option"
  fgPixelIsSprite0 :: "nat \<Rightarrow> bool"
  fgPixelIsInFront :: "nat \<Rightarrow> bool"
  bgPixels :: "nat \<Rightarrow> byte option"
  sprIOAddress :: byte
  readBuffer :: byte

record CPU =
  RAM :: "uint16 \<Rightarrow> byte"
  NumCycles :: uint64
  PC :: uint16
  SP :: byte
  cpu_A :: byte
  cpu_X :: byte
  cpu_Y :: byte
  flagCarry :: bool
  flagZero :: bool
  flagInterruptDisable :: bool
  flagDecimalMode :: bool
  flagBreak :: bool
  flagOverflow :: bool
  flagSign :: bool

record 'c Console =
  Cart :: 'c
  CPU :: CPU
  PPU :: PPU
  Joypads :: "Joypad \<times> Joypad"

section \<open>PPU registers and memory\<close>

text \<open>\<^verbatim>\<open>func (p *PPU) SetControlRegister(value byte)\<close>\<close>

definition SetControlRegister :: "byte \<Rightarrow> PPU \<Rightarrow> PPU" where
  "SetControlRegister val p =
     p\<lparr>ppu_t := (ppu_t p AND 0x73FF) OR push_bit 10 (ucast val AND 0x3),
       flagIncrementBy32 := (val AND 0x4 \<noteq> 0),
       spriteTableAddress := (if val AND 0x8 = 0 then 0x0000 else 0x1000),
       backgroundTableAddress := (if val AND 0x10 = 0 then 0x0000 else 0x1000),
       flagLargeSprites := (val AND 0x20 \<noteq> 0),
       flagNMIOnVBlank := (val AND 0x80 \<noteq> 0)\<rparr>"

text \<open>\<^verbatim>\<open>func (p *PPU) SetMaskRegister(value byte)\<close>\<close>

definition SetMaskRegister :: "byte \<Rightarrow> PPU \<Rightarrow> PPU" where
  "SetMaskRegister val p =
     p\<lparr>flagColourMode := (val AND 0x1 = 0),
       flagClipBackground := (val AND 0x2 = 0),
       flagClipSprites := (val AND 0x4 = 0),
       flagShowBackground := (val AND 0x8 \<noteq> 0),
       flagShowSprites := (val AND 0x10 \<noteq> 0),
       flagRedEmphasis := (val AND 0x20 \<noteq> 0),
       flagGreenEmphasis := (val AND 0x40 \<noteq> 0),
       flagBlueEmphasis := (val AND 0x80 \<noteq> 0)\<rparr>"

text \<open>\<^verbatim>\<open>SetSPRAddress\<close>, \<^verbatim>\<open>WriteSPR\<close>, \<^verbatim>\<open>ReadSPR\<close>\<close>

definition SetSPRAddress :: "byte \<Rightarrow> PPU \<Rightarrow> PPU" where
  "SetSPRAddress address p = p\<lparr>sprIOAddress := address\<rparr>"

definition WriteSPR :: "byte \<Rightarrow> PPU \<Rightarrow> PPU" where
  "WriteSPR val p =
     (let p1 = p\<lparr>sprRAM := (sprRAM p)(sprIOAddress p := val)\<rparr>
      in p1\<lparr>sprIOAddress := sprIOAddress p1 + 1\<rparr>)"

definition ReadSPR :: "PPU \<Rightarrow> byte" where
  "ReadSPR p = sprRAM p (sprIOAddress p)"

text \<open>\<^verbatim>\<open>func (p *PPU) WriteScroll(value byte)\<close>\<close>

definition WriteScroll :: "byte \<Rightarrow> PPU \<Rightarrow> PPU" where
  "WriteScroll val p =
     (if ppu_w p = 0
      then p\<lparr>ppu_t := (ppu_t p AND 0xFFE0) OR drop_bit 3 (ucast val AND 0xF8),
             ppu_x := val AND 0x7, ppu_w := 1\<rparr>
      else p\<lparr>ppu_t := (ppu_t p AND 0x0C1F) OR push_bit 12 (ucast val AND 0x7)
                         OR push_bit 2 (ucast val AND 0xF8),
             ppu_w := 0\<rparr>)"

text \<open>\<^verbatim>\<open>func (p *PPU) WriteDataAddress(value byte)\<close>\<close>

definition WriteDataAddress :: "byte \<Rightarrow> PPU \<Rightarrow> PPU" where
  "WriteDataAddress val p =
     (if ppu_w p = 0
      then (let p1 = p\<lparr>ppu_t := (ppu_t p AND 0x00FF) OR push_bit 8 (ucast val AND 0x3F)\<rparr>
            in p1\<lparr>ppu_t := ppu_t p1 AND 0x7FFF, ppu_w := 1\<rparr>)
      else (let p1 = p\<lparr>ppu_t := (ppu_t p AND 0xFF00) OR ucast val\<rparr>
            in p1\<lparr>ppu_v := ppu_t p1, ppu_w := 0\<rparr>))"

text \<open>\<^verbatim>\<open>func (p *PPU) StatusRegister() byte\<close>\<close>

definition StatusRegister :: "PPU \<Rightarrow> byte \<times> PPU" where
  "StatusRegister p =
     (let r1 = (if flagScanlineSpritesMax p then 0x20 else 0);
          r2 = (if flagSprite0Hit p then r1 OR 0x40 else r1);
          (r3, p1) = (if flagVBlankOutstanding p
                      then (r2 OR 0x80, p\<lparr>flagVBlankOutstanding := False\<rparr>) else (r2, p))
      in (r3, p1\<lparr>ppu_w := 0\<rparr>))"

text \<open>\<^verbatim>\<open>func (p *PPU) mapAddress(address uint16) uint16\<close>, of the mirroring mode \<^verbatim>\<open>Cart.Mirror\<close>\<close>

definition mapAddress :: "Mirror_mode \<Rightarrow> uint16 \<Rightarrow> uint16" where
  "mapAddress mirror address0 =
     (let address = address0 AND 0x3FFF in
      if address = 0x3F10 \<or> address = 0x3F14 \<or> address = 0x3F18 \<or> address = 0x3F1C
      then address - 0x10
      else if 0x2000 \<le> address \<and> address \<le> 0x2FFF then
        (case mirror of
           horizontal \<Rightarrow>
             (if 0x2400 \<le> address \<and> address < 0x2800 then address - 0x400
              else if 0x2C00 \<le> address \<and> address < 0x3000 then address - 0x400
              else address)
         | vertical \<Rightarrow>
             (if 0x2800 \<le> address \<and> address < 0x2C00 then address - 0x800
              else if 0x2C00 \<le> address \<and> address < 0x3000 then address - 0x800
              else address)
         | singleLow \<Rightarrow> 0x2000 OR (address AND 0x3FF)
         | singleHigh \<Rightarrow> 0x2400 OR (address AND 0x3FF)
         | fourScreen \<Rightarrow> address)
      else address)"

text \<open>\<^verbatim>\<open>func (p *PPU) read(address uint16) byte\<close> and \<^verbatim>\<open>func (p *PPU) write(address, value)\<close>\<close>

definition PPU_read :: "'c Mapper \<Rightarrow> 'c Console \<Rightarrow> uint16 \<Rightarrow> byte option" where
  "PPU_read mp s address0 =
     (let address = mapAddress (getMirror mp (Cart s)) address0 in
      if address < 0x2000 then Read mp (Cart s) address True
      else Some (ram (PPU s) address))"

definition PPU_write :: "'c Mapper \<Rightarrow> 'c Console \<Rightarrow> uint16 \<Rightarrow> byte \<Rightarrow> 'c Console option" where
  "PPU_write mp s address0 val =
     (let address = mapAddress (getMirror mp (Cart s)) address0 in
      if address < 0x2000
      then map_option (\<lambda>c. s\<lparr>Cart := c\<rparr>) (Write mp (Cart s) address val True)
      else Some (s\<lparr>PPU := (PPU s)\<lparr>ram := (ram (PPU s))(address := val)\<rparr>\<rparr>))"

text \<open>\<^verbatim>\<open>func (p *PPU) WriteData(value byte)\<close>\<close>

definition WriteData :: "'c Mapper \<Rightarrow> 'c Console \<Rightarrow> byte \<Rightarrow> 'c Console option" where
  "WriteData mp s val =
     (case PPU_write mp s (ppu_v (PPU s)) val of
        None \<Rightarrow> None
      | Some s1 \<Rightarrow>
          Some (s1\<lparr>PPU := (PPU s1)\<lparr>ppu_v := (if flagIncrementBy32 (PPU s1)
                                               then ppu_v (PPU s1) + 32
                                               else ppu_v (PPU s1) + 1)\<rparr>\<rparr>))"

text \<open>\<^verbatim>\<open>func (p *PPU) ReadData() byte\<close>\<close>

definition ReadData :: "'c Mapper \<Rightarrow> 'c Console \<Rightarrow> (byte \<times> 'c Console) option" where
  "ReadData mp s =
     (let previousValue = readBuffer (PPU s) in
      case PPU_read mp s (ppu_v (PPU s)) of
        None \<Rightarrow> None
      | Some b \<Rightarrow>
          (let p1 = (PPU s)\<lparr>readBuffer := b\<rparr>;
               result = (if ppu_v p1 AND 0x3FFF \<le> 0x3EFF then previousValue else readBuffer p1);
               p2 = p1\<lparr>ppu_v := (if flagIncrementBy32 p1 then ppu_v p1 + 32 else ppu_v p1 + 1)\<rparr>
           in Some (result, s\<lparr>PPU := p2\<rparr>)))"

section \<open>CPU memory bus\<close>

text \<open>\<^verbatim>\<open>func (c *CPU) read(address uint16) byte\<close>: the byte read and the console after the
  read (reading a PPU register or a joypad changes it).\<close>

definition CPU_read :: "'c Mapper \<Rightarrow> 'c Console \<Rightarrow> uint16 \<Rightarrow> (byte \<times> 'c Console) option" where
  "CPU_read mp s address =
     (if address < 0x2000 then Some (RAM (CPU s) (address AND 0x7FF), s)
      else if 0x2000 \<le> address \<and> address < 0x4000 then
        (if address AND 0x7 = 2
           then (let (r, p) = StatusRegister (PPU s) in Some (r, s\<lparr>PPU := p\<rparr>))
         else if address AND 0x7 = 4 then Some (ReadSPR (PPU s), s)
         else if address AND 0x7 = 7 then ReadData mp s
         else Some (0, s))
      else if address = 0x4016
        then (let (r, j) = Joypad_Read (fst (Joypads s))
              in Some (r, s\<lparr>Joypads := (j, snd (Joypads s))\<rparr>))
      else if address = 0x4017
        then (let (r, j) = Joypad_Read (snd (Joypads s))
              in Some (r, s\<lparr>Joypads := (fst (Joypads s), j)\<rparr>))
      else if 0x6000 \<le> address \<and> address \<le> 0xFFFF
        then map_option (\<lambda>r. (r, s)) (Read mp (Cart s) address False)
      else Some (0xFF, s))"

text \<open>
  The loop of the OAM DMA in \<^verbatim>\<open>CPU.write\<close>:
  \<^verbatim>\<open>for i = 0; i < 0x100; i++ { sprValue := c.read(uint16(value)*0x100 + i); WriteSPR(sprValue) }\<close>
\<close>

function OAMDMA_loop :: "'c Mapper \<Rightarrow> byte \<Rightarrow> uint16 \<Rightarrow> 'c Console \<Rightarrow> 'c Console option" where
  "OAMDMA_loop mp val i s =
     (if i < 0x100 then
        (case CPU_read mp s (ucast val * 0x100 + i) of
           None \<Rightarrow> None
         | Some (sprValue, s1) \<Rightarrow>
             OAMDMA_loop mp val (i + 1) (s1\<lparr>PPU := WriteSPR sprValue (PPU s1)\<rparr>))
      else Some s)"
  by pat_completeness auto
termination
proof (relation "measure (\<lambda>(mp, val, i, s). 0x100 - unat i)")
  show "wf (measure (\<lambda>(mp :: 'c Mapper, val :: byte, i :: uint16, s :: 'c Console). 0x100 - unat i))"
    by simp
next
  fix mp :: "'c Mapper" and val :: byte and i :: uint16 and s x2 x s1 :: "'c Console"
    and sprValue :: byte
  assume "i < 0x100"
  then have "unat i < 0x100" by (simp add: word_less_nat_alt)
  moreover from this have "unat (i + 1) = unat i + 1"
    by (simp add: unat_word_ariths)
  ultimately show "((mp, val, i + 1, s1\<lparr>PPU := WriteSPR sprValue (PPU s1)\<rparr>), (mp, val, i, s))
       \<in> measure (\<lambda>(mp, val, i, s). 0x100 - unat i)"
    by simp
qed

declare OAMDMA_loop.simps [simp del]

text \<open>\<^verbatim>\<open>func (c *CPU) write(address uint16, value byte) int\<close>: the cycles returned and the
  console after the write.\<close>

definition CPU_write :: "'c Mapper \<Rightarrow> 'c Console \<Rightarrow> uint16 \<Rightarrow> byte \<Rightarrow> (int \<times> 'c Console) option" where
  "CPU_write mp s address val =
     (if address < 0x2000
        then Some (0, s\<lparr>CPU := (CPU s)\<lparr>RAM := (RAM (CPU s))(address AND 0x7FF := val)\<rparr>\<rparr>)
      else if 0x2000 \<le> address \<and> address < 0x4000 then
        (if address AND 0x7 = 0x0 then Some (0, s\<lparr>PPU := SetControlRegister val (PPU s)\<rparr>)
         else if address AND 0x7 = 0x1 then Some (0, s\<lparr>PPU := SetMaskRegister val (PPU s)\<rparr>)
         else if address AND 0x7 = 0x3 then Some (0, s\<lparr>PPU := SetSPRAddress val (PPU s)\<rparr>)
         else if address AND 0x7 = 0x4 then Some (0, s\<lparr>PPU := WriteSPR val (PPU s)\<rparr>)
         else if address AND 0x7 = 0x5 then Some (0, s\<lparr>PPU := WriteScroll val (PPU s)\<rparr>)
         else if address AND 0x7 = 0x6 then Some (0, s\<lparr>PPU := WriteDataAddress val (PPU s)\<rparr>)
         else if address AND 0x7 = 0x7 then map_option (\<lambda>s'. (0, s')) (WriteData mp s val)
         else Some (0, s))
      else if address = 0x4016
        then Some (0, s\<lparr>Joypads := (Joypad_Write val (fst (Joypads s)), snd (Joypads s))\<rparr>)
      else if address = 0x4017
        then Some (0, s\<lparr>Joypads := (fst (Joypads s), Joypad_Write val (snd (Joypads s)))\<rparr>)
      else if address = 0x4014
        then map_option (\<lambda>s'. (512, s'))
               (OAMDMA_loop mp val 0 (s\<lparr>PPU := SetSPRAddress 0 (PPU s)\<rparr>))
      else if 0x6000 \<le> address \<and> address < 0x8000
        then map_option (\<lambda>c. (0, s\<lparr>Cart := c\<rparr>)) (Write mp (Cart s) address val False)
      else if 0x8000 \<le> address \<and> address \<le> 0xFFFF
        then map_option (\<lambda>c. (0, s\<lparr>Cart := c\<rparr>)) (Write mp (Cart s) address val False)
      else Some (0, s))"

text \<open>
  To name the bytes that the DMA reads: the console after the first \<open>n\<close> passes of the loop
  of \<open>OAMDMA_loop\<close> (pass \<open>n\<close> reads at \<open>value * $100 + n\<close> and hands the byte to \<open>WriteSPR\<close>),
  and the byte read by pass \<open>k\<close> of the DMA that a write of \<open>val\<close> to $4014 starts in \<open>s\<close>
  (\<open>None\<close> when the DMA does not get that far).
\<close>

fun OAMDMA_upto :: "'c Mapper \<Rightarrow> byte \<Rightarrow> nat \<Rightarrow> 'c Console \<Rightarrow> 'c Console option" where
  "OAMDMA_upto mp val 0 s = Some s"
| "OAMDMA_upto mp val (Suc n) s =
     (case OAMDMA_upto mp val n s of
        None \<Rightarrow> None
      | Some sn \<Rightarrow>
          (case CPU_read mp sn (ucast val * 0x100 + of_nat n) of
             None \<Rightarrow> None
           | Some (sprValue, s1) \<Rightarrow> Some (s1\<lparr>PPU := WriteSPR sprValue (PPU s1)\<rparr>)))"

definition OAMDMA_byte :: "'c Mapper \<Rightarrow> byte \<Rightarrow> 'c Console \<Rightarrow> nat \<Rightarrow> byte option" where
  "OAMDMA_byte mp val s k =
     (case OAMDMA_upto mp val k (s\<lparr>PPU := SetSPRAddress 0 (PPU s)\<rparr>) of
        None \<Rightarrow> None
      | Some sk \<Rightarrow> map_option fst (CPU_read mp sk (ucast val * 0x100 + of_nat k)))"

section \<open>CPU\<close>

definition StackBase :: uint16 where "StackBase = 0x100"
definition ResetVector :: uint16 where "ResetVector = 0xfffc"
definition InterruptVector :: uint16 where "InterruptVector = 0xfffe"
definition NMIVector :: uint16 where "NMIVector = 0xfffa"

text \<open>\<^verbatim>\<open>func (c *CPU) P() byte\<close>\<close>

definition CPU_P :: "CPU \<Rightarrow> byte" where
  "CPU_P c =
     (let p0 = (0 :: byte);
          p1 = (if flagCarry c then p0 OR 0x01 else p0);
          p2 = (if flagZero c then p1 OR 0x02 else p1);
          p3 = (if flagInterruptDisable c then p2 OR 0x04 else p2);
          p4 = (if flagDecimalMode c then p3 OR 0x08 else p3);
          p5 = (if flagBreak c then p4 OR 0x10 else p4);
          p6 = p5 OR 0x20;
          p7 = (if flagOverflow c then p6 OR 0x40 else p6)
      in if flagSign c then p7 OR 0x80 else p7)"

text \<open>\<^verbatim>\<open>push8\<close>, \<^verbatim>\<open>pop8\<close>, \<^verbatim>\<open>push16\<close>, \<^verbatim>\<open>pop16\<close>\<close>

definition push8 :: "'c Mapper \<Rightarrow> 'c Console \<Rightarrow> byte \<Rightarrow> 'c Console option" where
  "push8 mp s val = do {
     (cycles, s1) \<leftarrow> CPU_write mp s (StackBase + ucast (SP (CPU s))) val;
     Some (s1\<lparr>CPU := (CPU s1)\<lparr>SP := SP (CPU s1) - 1\<rparr>\<rparr>)
   }"

definition pop8 :: "'c Mapper \<Rightarrow> 'c Console \<Rightarrow> (byte \<times> 'c Console) option" where
  "pop8 mp s = do {
     (val, s1) \<leftarrow> CPU_read mp s (StackBase + ucast (SP (CPU s)) + 1);
     Some (val, s1\<lparr>CPU := (CPU s1)\<lparr>SP := SP (CPU s1) + 1\<rparr>\<rparr>)
   }"

definition push16 :: "'c Mapper \<Rightarrow> 'c Console \<Rightarrow> uint16 \<Rightarrow> 'c Console option" where
  "push16 mp s val = do {
     (cycles1, s1) \<leftarrow> CPU_write mp s (StackBase + ucast (SP (CPU s)) - 1) (ucast (val AND 0xFF));
     (cycles2, s2) \<leftarrow> CPU_write mp s1 (StackBase + ucast (SP (CPU s1))) (ucast (drop_bit 8 val));
     Some (s2\<lparr>CPU := (CPU s2)\<lparr>SP := SP (CPU s2) - 2\<rparr>\<rparr>)
   }"

definition pop16 :: "'c Mapper \<Rightarrow> 'c Console \<Rightarrow> (uint16 \<times> 'c Console) option" where
  "pop16 mp s = do {
     (low, s1) \<leftarrow> CPU_read mp s (StackBase + ucast (SP (CPU s)) + 1);
     (high, s2) \<leftarrow> CPU_read mp s1 (StackBase + ucast (SP (CPU s1)) + 2);
     Some (push_bit 8 (ucast high) OR ucast low, s2\<lparr>CPU := (CPU s2)\<lparr>SP := SP (CPU s2) + 2\<rparr>\<rparr>)
   }"

text \<open>\<^verbatim>\<open>read16\<close> and \<^verbatim>\<open>read16WithPageBoundaryBug\<close>: Go evaluates the two calls of
  \<^verbatim>\<open>c.read\<close> from left to right, the low byte first.\<close>

definition read16 :: "'c Mapper \<Rightarrow> 'c Console \<Rightarrow> uint16 \<Rightarrow> (uint16 \<times> 'c Console) option" where
  "read16 mp s address = do {
     let low = address;
     let high = address + 1;
     (l, s1) \<leftarrow> CPU_read mp s low;
     (h, s2) \<leftarrow> CPU_read mp s1 high;
     Some (ucast l OR push_bit 8 (ucast h), s2)
   }"

definition read16WithPageBoundaryBug ::
    "'c Mapper \<Rightarrow> 'c Console \<Rightarrow> uint16 \<Rightarrow> (uint16 \<times> 'c Console) option" where
  "read16WithPageBoundaryBug mp s address = do {
     let low = address;
     let high = (if address AND 0xFF = 0xFF then address AND 0xFF00 else address + 1);
     (l, s1) \<leftarrow> CPU_read mp s low;
     (h, s2) \<leftarrow> CPU_read mp s1 high;
     Some (ucast l OR push_bit 8 (ucast h), s2)
   }"

definition pagesEqual :: "uint16 \<Rightarrow> uint16 \<Rightarrow> bool" where
  "pagesEqual p1 p2 = (p1 AND 0xFF00 = p2 AND 0xFF00)"

text \<open>Addressing modes: the operand address, whether a page was crossed, and the console
  after the reads.\<close>

definition getAddrImplied :: "'c Console \<Rightarrow> ((uint16 \<times> bool) \<times> 'c Console) option" where
  "getAddrImplied s = Some ((0, False), s)"

definition getAddrImmediate :: "'c Console \<Rightarrow> ((uint16 \<times> bool) \<times> 'c Console) option" where
  "getAddrImmediate s = Some ((PC (CPU s) + 1, False), s)"

definition getAddrIndirect ::
    "'c Mapper \<Rightarrow> 'c Console \<Rightarrow> ((uint16 \<times> bool) \<times> 'c Console) option" where
  "getAddrIndirect mp s = do {
     (pointer, s1) \<leftarrow> read16 mp s (PC (CPU s) + 1);
     (address, s2) \<leftarrow> read16WithPageBoundaryBug mp s1 pointer;
     Some ((address, False), s2)
   }"

definition getAddrIndirectX ::
    "'c Mapper \<Rightarrow> 'c Console \<Rightarrow> ((uint16 \<times> bool) \<times> 'c Console) option" where
  "getAddrIndirectX mp s = do {
     (b, s1) \<leftarrow> CPU_read mp s (PC (CPU s) + 1);
     let from = (ucast (b + cpu_X (CPU s1)) :: uint16);
     (address, s2) \<leftarrow> read16WithPageBoundaryBug mp s1 from;
     Some ((address, False), s2)
   }"

definition getAddrIndirectY ::
    "'c Mapper \<Rightarrow> 'c Console \<Rightarrow> ((uint16 \<times> bool) \<times> 'c Console) option" where
  "getAddrIndirectY mp s = do {
     (b, s1) \<leftarrow> CPU_read mp s (PC (CPU s) + 1);
     let from = (ucast b :: uint16);
     (address, s2) \<leftarrow> read16WithPageBoundaryBug mp s1 from;
     let finalAddress = address + ucast (cpu_Y (CPU s2));
     Some ((finalAddress, \<not> pagesEqual address finalAddress), s2)
   }"

definition signBitSet :: "byte \<Rightarrow> bool" where
  "signBitSet val = (val AND 0x80 \<noteq> 0)"

definition updateflagZero :: "byte \<Rightarrow> CPU \<Rightarrow> CPU" where
  "updateflagZero val c = c\<lparr>flagZero := (val = 0)\<rparr>"

definition updateflagSign :: "byte \<Rightarrow> CPU \<Rightarrow> CPU" where
  "updateflagSign val c = c\<lparr>flagSign := (val AND 0x80 = 0x80)\<rparr>"

text \<open>\<^verbatim>\<open>func (c *CPU) adc(address uint16) int\<close>; the sum that decides the carry is computed on
  Go's \<^verbatim>\<open>int\<close>.\<close>

definition adc :: "'c Mapper \<Rightarrow> 'c Console \<Rightarrow> uint16 \<Rightarrow> (int \<times> 'c Console) option" where
  "adc mp s address = do {
     (val, s1) \<leftarrow> CPU_read mp s address;
     let c0 = CPU s1;
     let carry = (if flagCarry c0 then 1 else 0 :: byte);
     let c1 = c0\<lparr>flagCarry := (uint (cpu_A c0) + uint val + uint carry > 0xFF)\<rparr>;
     let aSign = signBitSet (cpu_A c1);
     let valueSign = signBitSet val;
     let c2 = c1\<lparr>cpu_A := cpu_A c1 + val + carry\<rparr>;
     let c3 = updateflagZero (cpu_A c2) c2;
     let c4 = updateflagSign (cpu_A c3) c3;
     let resultSign = signBitSet (cpu_A c4);
     let c5 = c4\<lparr>flagOverflow := ((aSign \<and> valueSign \<and> \<not> resultSign) \<or>
                                   (\<not> aSign \<and> \<not> valueSign \<and> resultSign))\<rparr>;
     Some (0, s1\<lparr>CPU := c5\<rparr>)
   }"

text \<open>\<^verbatim>\<open>func (c *CPU) sbc(address uint16) int\<close>\<close>

definition sbc :: "'c Mapper \<Rightarrow> 'c Console \<Rightarrow> uint16 \<Rightarrow> (int \<times> 'c Console) option" where
  "sbc mp s address = do {
     (val, s1) \<leftarrow> CPU_read mp s address;
     let c0 = CPU s1;
     let carry = (if \<not> flagCarry c0 then 1 else 0 :: byte);
     let c1 = c0\<lparr>flagCarry := (uint (cpu_A c0) - uint val - uint carry \<ge> 0)\<rparr>;
     let aSign = signBitSet (cpu_A c1);
     let valueSign = (\<not> signBitSet val);
     let c2 = c1\<lparr>cpu_A := cpu_A c1 - val - carry\<rparr>;
     let c3 = updateflagZero (cpu_A c2) c2;
     let c4 = updateflagSign (cpu_A c3) c3;
     let resultSign = signBitSet (cpu_A c4);
     let c5 = c4\<lparr>flagOverflow := ((aSign \<and> valueSign \<and> \<not> resultSign) \<or>
                                   (\<not> aSign \<and> \<not> valueSign \<and> resultSign))\<rparr>;
     Some (0, s1\<lparr>CPU := c5\<rparr>)
   }"

text \<open>\<^verbatim>\<open>func (c *CPU) php(address uint16) int\<close> and \<^verbatim>\<open>func (c *CPU) plp(address uint16) int\<close>\<close>

definition php :: "'c Mapper \<Rightarrow> 'c Console \<Rightarrow> uint16 \<Rightarrow> (int \<times> 'c Console) option" where
  "php mp s address = do {
     s1 \<leftarrow> push8 mp s (CPU_P (CPU s) OR 0x10);
     Some (0, s1)
   }"

definition plp :: "'c Mapper \<Rightarrow> 'c Console \<Rightarrow> uint16 \<Rightarrow> (int \<times> 'c Console) option" where
  "plp mp s address = do {
     (b, s1) \<leftarrow> pop8 mp s;
     let p = b AND 0xEF;
     Some (0, s1\<lparr>CPU := (CPU s1)\<lparr>flagCarry := (p AND 0x01 \<noteq> 0),
                                   flagZero := (p AND 0x02 \<noteq> 0),
                                   flagInterruptDisable := (p AND 0x04 \<noteq> 0),
                                   flagDecimalMode := (p AND 0x08 \<noteq> 0),
                                   flagBreak := (p AND 0x10 \<noteq> 0),
                                   flagOverflow := (p AND 0x40 \<noteq> 0),
                                   flagSign := (p AND 0x80 \<noteq> 0)\<rparr>\<rparr>)
   }"

text \<open>\<^verbatim>\<open>func (c *CPU) jmp(address uint16) int\<close> and \<^verbatim>\<open>func (c *CPU) xxx(address uint16) int\<close>\<close>

definition jmp :: "'c Console \<Rightarrow> uint16 \<Rightarrow> (int \<times> 'c Console) option" where
  "jmp s address = Some (0, s\<lparr>CPU := (CPU s)\<lparr>PC := address\<rparr>\<rparr>)"

definition xxx :: "'c Console \<Rightarrow> uint16 \<Rightarrow> (int \<times> 'c Console) option" where
  "xxx s address = Some (0, s)"

text \<open>\<^verbatim>\<open>func (c *CPU) interrupt() int\<close> and \<^verbatim>\<open>func (c *CPU) NMI() int\<close>\<close>

definition interrupt :: "'c Mapper \<Rightarrow> 'c Console \<Rightarrow> (int \<times> 'c Console) option" where
  "interrupt mp s = do {
     s1 \<leftarrow> push16 mp s (PC (CPU s));
     s2 \<leftarrow> push8 mp s1 (CPU_P (CPU s1));
     (pc, s3) \<leftarrow> read16 mp s2 InterruptVector;
     Some (7, s3\<lparr>CPU := (CPU s3)\<lparr>PC := pc, flagInterruptDisable := True\<rparr>\<rparr>)
   }"

definition NMI :: "'c Mapper \<Rightarrow> 'c Console \<Rightarrow> (int \<times> 'c Console) option" where
  "NMI mp s = do {
     s1 \<leftarrow> push16 mp s (PC (CPU s));
     s2 \<leftarrow> push8 mp s1 (CPU_P (CPU s1));
     (pc, s3) \<leftarrow> read16 mp s2 NMIVector;
     Some (7, s3\<lparr>CPU := (CPU s3)\<lparr>PC := pc, flagInterruptDisable := True\<rparr>\<rparr>)
   }"

text \<open>
  \<^verbatim>\<open>type instruction struct\<close>: an entry of the opcode table. \<open>Impl\<close> and \<open>GetAddressImpl\<close> are
  the method values bound to the CPU, here functions of the console; \<open>GetAddressImpl\<close> is
  \<^verbatim>\<open>nil\<close> (\<open>None\<close>) in the entries of the invalid opcodes, and calling it would panic.
\<close>

record 'c instruction =
  Name :: string
  Impl :: "'c Console \<Rightarrow> uint16 \<Rightarrow> (int \<times> 'c Console) option"
  Size :: uint16
  NumBaseCycles :: int
  NumPageCrossCycles :: int
  GetAddressImpl :: "('c Console \<Rightarrow> ((uint16 \<times> bool) \<times> 'c Console) option) option"

text \<open>The two errors that \<^verbatim>\<open>CPU.Step\<close> builds with \<^verbatim>\<open>fmt.Errorf\<close>.\<close>

datatype error = InvalidInstruction byte uint16 | UnimplementedInstruction string

text \<open>
  \<^verbatim>\<open>func (c *CPU) Step() (uint64, error)\<close>, for the opcode table \<open>instructions\<close>: the pair
  returned (\<open>None\<close> for a \<^verbatim>\<open>nil\<close> error) and the console after the step.
\<close>

definition CPU_Step ::
    "(byte \<Rightarrow> 'c instruction) \<Rightarrow> 'c Mapper \<Rightarrow> 'c Console
       \<Rightarrow> ((uint64 \<times> error option) \<times> 'c Console) option" where
  "CPU_Step instructions mp s = do {
     (numCycles0, s1) \<leftarrow>
        (if \<not> flagInterruptDisable (CPU s) then
           (let (irq, cart') = IRQ mp (Cart s); s0 = s\<lparr>Cart := cart'\<rparr>
            in if irq then interrupt mp s0 else Some (0, s0))
         else Some (0, s));
     (opcode, s2) \<leftarrow> CPU_read mp s1 (PC (CPU s1));
     let instruction = instructions opcode;
     if Size instruction = 0
     then Some ((0, Some (InvalidInstruction opcode (PC (CPU s2)))), s2)
     else do {
       let numCycles1 = numCycles0 + NumBaseCycles instruction;
       getAddress \<leftarrow> GetAddressImpl instruction;
       ((val, pageCrossed), s3) \<leftarrow> getAddress s2;
       let s4 = s3\<lparr>CPU := (CPU s3)\<lparr>PC := PC (CPU s3) + Size instruction\<rparr>\<rparr>;
       let numCycles2 = (if pageCrossed then numCycles1 + NumPageCrossCycles instruction
                         else numCycles1);
       (extraCycles, s5) \<leftarrow> Impl instruction s4 val;
       if extraCycles = -1
       then Some ((NumCycles (CPU s5), Some (UnimplementedInstruction (Name instruction))), s5)
       else (let s6 = s5\<lparr>CPU := (CPU s5)\<lparr>NumCycles := NumCycles (CPU s5)
                                                  + of_int (numCycles2 + extraCycles)\<rparr>\<rparr>
             in Some ((NumCycles (CPU s6), None), s6))
     }
   }"

section \<open>PPU rendering and timing\<close>

definition BackgroundPaletteAddress :: uint16 where "BackgroundPaletteAddress = 0x3F00"
definition SpritePaletteAddress :: uint16 where "SpritePaletteAddress = 0x3F10"

text \<open>One pass of the loop \<^verbatim>\<open>for i := 0; i < 8; i++\<close> of \<^verbatim>\<open>pixelStrip\<close>: the pixel \<open>result[i]\<close>.\<close>

definition pixelStrip_pixel ::
    "'c Mapper \<Rightarrow> 'c Console \<Rightarrow> uint16 \<Rightarrow> uint16 \<Rightarrow> bool \<Rightarrow> byte \<Rightarrow> byte \<Rightarrow> nat
       \<Rightarrow> byte option option" where
  "pixelStrip_pixel mp s basePaletteAddress attributeBits showPixels low high i =
     (let low2 = (drop_bit (7 - i) low AND 0x1 \<noteq> 0);
          high2 = (drop_bit (7 - i) high AND 0x1 \<noteq> 0);
          index0 = (if high2 then 0x2 else 0 :: uint16);
          index = (if low2 then index0 OR 0x1 else index0)
      in if index = 0 \<or> \<not> showPixels then Some None
         else map_option (\<lambda>b. Some (b AND 0x3F))
                (PPU_read mp s (basePaletteAddress + push_bit 2 attributeBits + index)))"

text \<open>\<^verbatim>\<open>func (p *PPU) pixelStrip(patternIndex, attributeBits, isForeground, yOffset)\<close>: the
  eight pixels.\<close>

definition pixelStrip ::
    "'c Mapper \<Rightarrow> 'c Console \<Rightarrow> byte \<Rightarrow> uint16 \<Rightarrow> bool \<Rightarrow> int \<Rightarrow> byte option list option" where
  "pixelStrip mp s patternIndex0 attributeBits isForeground yOffset0 =
     (let p = PPU s;
          (baseAddress, patternIndex, yOffset, basePaletteAddress, showPixels) =
            (if isForeground then
               (if flagLargeSprites p then
                  (let baseAddress = (if patternIndex0 AND 0x1 = 0 then 0x0000 else 0x1000);
                       (patternIndex, yOffset) =
                          (if yOffset0 > 7 then (patternIndex0 OR 0x1, yOffset0 - 8)
                           else (patternIndex0 AND NOT 0x1, yOffset0))
                   in (baseAddress, patternIndex, yOffset, SpritePaletteAddress,
                       flagShowSprites p))
                else (spriteTableAddress p, patternIndex0, yOffset0, SpritePaletteAddress,
                      flagShowSprites p))
             else (backgroundTableAddress p, patternIndex0, yOffset0, BackgroundPaletteAddress,
                   flagShowBackground p))
      in do {
        low \<leftarrow> PPU_read mp s (baseAddress + ucast patternIndex * 16 + word_of_int yOffset);
        high \<leftarrow> PPU_read mp s (baseAddress + ucast patternIndex * 16 + word_of_int yOffset + 8);
        those (map (pixelStrip_pixel mp s basePaletteAddress attributeBits showPixels low high)
                 [0..<8])
      })"

text \<open>\<^verbatim>\<open>func (p *PPU) loadTile()\<close>\<close>

definition loadTile :: "'c Mapper \<Rightarrow> 'c Console \<Rightarrow> 'c Console option" where
  "loadTile mp s = do {
     let v = ppu_v (PPU s);
     let attributeAddress =
           0x23C0 OR (v AND 0x0C00) OR (drop_bit 4 v AND 0x38) OR (drop_bit 2 v AND 0x07);
     let shift = (v AND 0x2) OR drop_bit 4 (v AND 0x40);
     a \<leftarrow> PPU_read mp s attributeAddress;
     let attributeBits = drop_bit (unat shift) a AND 0x3;
     patternIndex \<leftarrow> PPU_read mp s (0x2000 OR (v AND 0x0FFF));
     newPixels \<leftarrow> pixelStrip mp s patternIndex (ucast attributeBits) False
                    (drop_bit 12 (uint (v AND 0x7000)));
     Some (s\<lparr>PPU := (PPU s)\<lparr>bgPixels :=
             (\<lambda>k. if 8 \<le> k \<and> k < 16 then newPixels ! (k - 8) else bgPixels (PPU s) k)\<rparr>\<rparr>)
   }"

text \<open>\<^verbatim>\<open>img.Set(x, y, colour)\<close> of Go's \<^verbatim>\<open>image.RGBA\<close> ignores a point outside the 256 by 240
  rectangle.\<close>

definition img_Set :: "(int \<times> int \<Rightarrow> RGBA) \<Rightarrow> int \<Rightarrow> int \<Rightarrow> RGBA \<Rightarrow> (int \<times> int \<Rightarrow> RGBA)" where
  "img_Set im x y colour =
     (if 0 \<le> x \<and> x < 256 \<and> 0 \<le> y \<and> y < 240 then im((x, y) := colour) else im)"

text \<open>
  \<^verbatim>\<open>func (p *PPU) drawPixel()\<close>, in three parts: the choice of the colour at column \<open>x\<close>
  (the \<^verbatim>\<open>if isBorder ... else if ...\<close> chain), the sprite-0 test, and the function itself.
  \<^verbatim>\<open>p.bgPixels[p.x]\<close> panics for \<open>16 \<le> p.x\<close>; the \<^verbatim>\<open>copy\<close> moves the pixels after \<open>p.x\<close> down
  by one. Where the border test has failed, \<open>x\<close> is in 8..247 and \<^verbatim>\<open>p.fgPixels[x]\<close> is in
  range; the sprite-0 test indexes \<^verbatim>\<open>p.fgPixels[x]\<close> for any \<open>x\<close> and panics outside 0..255.
\<close>

definition drawPixel_colour ::
    "'c Mapper \<Rightarrow> 'c Console \<Rightarrow> PPU \<Rightarrow> byte option \<Rightarrow> int \<Rightarrow> RGBA option" where
  "drawPixel_colour mp s p1 bgPixel x =
     (let showSprites = (x \<ge> 8 \<or> \<not> flagClipSprites p1);
          showBackground = (x \<ge> 8 \<or> \<not> flagClipBackground p1);
          isBorder = (x < 8 \<or> x > 247 \<or> Scanline p1 < 8 \<or> Scanline p1 > 231)
      in if isBorder then Some (palette p1 0x3F)
         else if showSprites \<and> fgPixels p1 (nat x) \<noteq> None
                 \<and> (fgPixelIsInFront p1 (nat x) \<or> bgPixel = None)
           then Some (palette p1 (the (fgPixels p1 (nat x))))
         else if showBackground \<and> bgPixel \<noteq> None then Some (palette p1 (the bgPixel))
         else map_option (\<lambda>b. palette p1 (b AND 0x3F))
                (PPU_read mp (s\<lparr>PPU := p1\<rparr>) BackgroundPaletteAddress))"

definition drawPixel_sprite0 :: "PPU \<Rightarrow> byte option \<Rightarrow> int \<Rightarrow> PPU option" where
  "drawPixel_sprite0 p1 bgPixel x =
     (let showSprites = (x \<ge> 8 \<or> \<not> flagClipSprites p1);
          showBackground = (x \<ge> 8 \<or> \<not> flagClipBackground p1)
      in if showSprites \<and> showBackground then
           (if x < 0 \<or> 256 \<le> x then None
            else if fgPixels p1 (nat x) \<noteq> None \<and> bgPixel \<noteq> None
                    \<and> fgPixelIsSprite0 p1 (nat x) \<and> x < 255
              then Some (p1\<lparr>flagSprite0Hit := True\<rparr>)
            else Some p1)
         else Some p1)"

definition drawPixel :: "'c Mapper \<Rightarrow> 'c Console \<Rightarrow> 'c Console option" where
  "drawPixel mp s =
     (let p = PPU s; xi = unat (ppu_x p) in
      if 16 \<le> xi then None
      else
        (let bgPixel = bgPixels p xi;
             p1 = p\<lparr>bgPixels := (\<lambda>k. if xi \<le> k \<and> k < 15 then bgPixels p (k + 1)
                                       else bgPixels p k)\<rparr>;
             x = Tick p1 - 1
         in if x > 256 then Some (s\<lparr>PPU := p1\<rparr>)
            else do {
              colour \<leftarrow> drawPixel_colour mp s p1 bgPixel x;
              p2 \<leftarrow> drawPixel_sprite0 p1 bgPixel x;
              Some (s\<lparr>PPU := p2\<lparr>img := img_Set (img p2) x (Scanline p2) colour\<rparr>\<rparr>)
            }))"

text \<open>\<^verbatim>\<open>incrementCoarseX\<close>, \<^verbatim>\<open>incrementY\<close>, \<^verbatim>\<open>copyHorizontalBitsToV\<close>, \<^verbatim>\<open>copyVerticalBitsToV\<close>\<close>

definition incrementCoarseX :: "PPU \<Rightarrow> PPU" where
  "incrementCoarseX p =
     (if ppu_v p AND 0x001F = 31
      then (let p1 = p\<lparr>ppu_v := ppu_v p AND NOT 0x001F\<rparr> in p1\<lparr>ppu_v := ppu_v p1 XOR 0x0400\<rparr>)
      else p\<lparr>ppu_v := ppu_v p + 1\<rparr>)"

definition incrementY :: "PPU \<Rightarrow> PPU" where
  "incrementY p =
     (if ppu_v p AND 0x7000 \<noteq> 0x7000 then p\<lparr>ppu_v := ppu_v p + 0x1000\<rparr>
      else
        (let p1 = p\<lparr>ppu_v := ppu_v p AND NOT 0x7000\<rparr>;
             y = drop_bit 5 (ppu_v p1 AND 0x03E0);
             (y', p2) = (if y = 29 then (0, p1\<lparr>ppu_v := ppu_v p1 XOR 0x0800\<rparr>)
                         else if y = 31 then (0, p1)
                         else (y + 1, p1))
         in p2\<lparr>ppu_v := (ppu_v p2 AND NOT 0x03E0) OR push_bit 5 y'\<rparr>))"

definition copyHorizontalBitsToV :: "PPU \<Rightarrow> PPU" where
  "copyHorizontalBitsToV p = p\<lparr>ppu_v := (ppu_v p AND 0xFBE0) OR (ppu_t p AND NOT 0xFBE0)\<rparr>"

definition copyVerticalBitsToV :: "PPU \<Rightarrow> PPU" where
  "copyVerticalBitsToV p = p\<lparr>ppu_v := (ppu_v p AND 0x041F) OR (ppu_t p AND NOT 0x041F)\<rparr>"

text \<open>\<^verbatim>\<open>func (p *PPU) incrementTick()\<close>\<close>

definition incrementTick :: "PPU \<Rightarrow> PPU" where
  "incrementTick p =
     (let p1 = p\<lparr>Tick := Tick p + 1\<rparr>;
          isOddFrame = (Frame p1 AND 0x1 \<noteq> 0)
      in if Scanline p1 = 261 \<and> (Tick p1 = 341 \<or> (Tick p1 = 340 \<and> isOddFrame))
         then p1\<lparr>Scanline := 0, Tick := 0, Frame := Frame p1 + 1\<rparr>
         else if Tick p1 = 341 then p1\<lparr>Scanline := Scanline p1 + 1, Tick := 0\<rparr>
         else p1)"

text \<open>
  The inner loop \<^verbatim>\<open>for k := 0; k < 8; k++\<close> of \<^verbatim>\<open>loadSprites\<close>, which paints the strip of
  the sprite at OAM offset \<open>i\<close> and column \<open>x\<close> into the empty slots of the line buffer:
  first what one pass does at position \<open>x + k\<close>, after the test \<^verbatim>\<open>if x+k > 0xFF { break }\<close>,
  then the loop.
\<close>

definition loadSprites_pixel ::
    "byte option list \<Rightarrow> bool \<Rightarrow> bool \<Rightarrow> nat \<Rightarrow> int \<Rightarrow> nat \<Rightarrow> PPU \<Rightarrow> PPU" where
  "loadSprites_pixel strip flipH inFront i x k p =
     (let pk = (if flipH then 7 - k else k);
          pos = nat (x + int k)
      in if fgPixels p pos = None \<and> strip ! pk \<noteq> None
         then (let pa = p\<lparr>fgPixels := (fgPixels p)(pos := strip ! pk)\<rparr>;
                   pb = (if i = 0
                         then pa\<lparr>fgPixelIsSprite0 := (fgPixelIsSprite0 pa)(pos := True)\<rparr>
                         else pa)
               in pb\<lparr>fgPixelIsInFront := (fgPixelIsInFront pb)(pos := inFront)\<rparr>)
         else p)"

function loadSprites_paint ::
    "byte option list \<Rightarrow> bool \<Rightarrow> bool \<Rightarrow> nat \<Rightarrow> int \<Rightarrow> nat \<Rightarrow> PPU \<Rightarrow> PPU" where
  "loadSprites_paint strip flipH inFront i x k p =
     (if k < 8 then
        (if x + int k > 0xFF then p
         else loadSprites_paint strip flipH inFront i x (k + 1)
                (loadSprites_pixel strip flipH inFront i x k p))
      else p)"
  by pat_completeness auto
termination
  by (relation "measure (\<lambda>(strip, flipH, inFront, i, x, k, p). 8 - k)") auto

declare loadSprites_paint.simps [simp del]

text \<open>
  The outer loop \<^verbatim>\<open>for i := 0; i < len(p.sprRAM); i += 4\<close> of \<^verbatim>\<open>loadSprites\<close>; it starts at 0,
  so \<open>i + 3\<close> stays below 256.
\<close>

function loadSprites_loop ::
    "'c Mapper \<Rightarrow> int \<Rightarrow> nat \<Rightarrow> int \<Rightarrow> 'c Console \<Rightarrow> 'c Console option" where
  "loadSprites_loop mp spriteHeight i numSprites s =
     (if i < 256 then
        (let p = PPU s;
             y = uint (sprRAM p (of_nat i)) + 1;
             x = uint (sprRAM p (of_nat (i + 3)))
         in if y \<ge> 0xF0 \<or> Scanline p + 1 < y \<or> Scanline p + 1 \<ge> y + spriteHeight
            then loadSprites_loop mp spriteHeight (i + 4) numSprites s
            else if numSprites + 1 > 8
            then Some (s\<lparr>PPU := p\<lparr>flagScanlineSpritesMax := True\<rparr>\<rparr>)
            else
              (let yOffset0 = Scanline p + 1 - y;
                   patternIndex = sprRAM p (of_nat (i + 1));
                   attributes = sprRAM p (of_nat (i + 2));
                   flipH = (attributes AND 0x40 \<noteq> 0);
                   flipV = (attributes AND 0x80 \<noteq> 0);
                   inFront = (attributes AND 0x20 = 0);
                   yOffset = (if flipV then spriteHeight - 1 - yOffset0 else yOffset0);
                   paletteBits = (ucast (attributes AND 0x3) :: uint16)
               in case pixelStrip mp s patternIndex paletteBits True yOffset of
                    None \<Rightarrow> None
                  | Some strip \<Rightarrow>
                      loadSprites_loop mp spriteHeight (i + 4) (numSprites + 1)
                        (s\<lparr>PPU := loadSprites_paint strip flipH inFront i x 0 p\<rparr>)))
      else Some s)"
  by pat_completeness auto
termination
  by (relation "measure (\<lambda>(mp, spriteHeight, i, numSprites, s). 256 - i)") auto

declare loadSprites_loop.simps [simp del]

text \<open>\<^verbatim>\<open>func (p *PPU) loadSprites()\<close>\<close>

definition loadSprites :: "'c Mapper \<Rightarrow> 'c Console \<Rightarrow> 'c Console option" where
  "loadSprites mp s =
     (let p1 = (PPU s)\<lparr>fgPixels := (\<lambda>i. None), fgPixelIsSprite0 := (\<lambda>i. False),
                        fgPixelIsInFront := (\<lambda>i. False)\<rparr>;
          s1 = s\<lparr>PPU := p1\<rparr>
      in if \<not> flagShowSprites p1 \<or> Scanline p1 = 0 then Some s1
         else loadSprites_loop mp (if flagLargeSprites p1 then 16 else 8) 0 0 s1)"

text \<open>
  \<^verbatim>\<open>func (p *PPU) Step() (uint64, *image.RGBA)\<close>: the pair returned (the image is \<open>None\<close>
  for \<^verbatim>\<open>nil\<close>) and the console after the step.
\<close>

definition PPU_Step ::
    "'c Mapper \<Rightarrow> 'c Console \<Rightarrow> ((uint64 \<times> (int \<times> int \<Rightarrow> RGBA) option) \<times> 'c Console) option" where
  "PPU_Step mp s = do {
     let s0 = s\<lparr>PPU := incrementTick (PPU s)\<rparr>;
     let isRendering = (flagShowBackground (PPU s0) \<or> flagShowSprites (PPU s0));
     let isVisible = (Scanline (PPU s0) \<le> 239);
     let isVBlankLine = (Scanline (PPU s0) = 241);
     let isPrerender = (Scanline (PPU s0) = 261);
     let isDrawing = (isRendering \<and> isVisible \<and>
           ((Tick (PPU s0) \<ge> 1 \<and> Tick (PPU s0) \<le> 256) \<or>
            (Tick (PPU s0) \<ge> 321 \<and> Tick (PPU s0) \<le> 336)));
     let isFetching = (isRendering \<and> (isVisible \<or> isPrerender) \<and>
           ((Tick (PPU s0) \<ge> 1 \<and> Tick (PPU s0) \<le> 256) \<or>
            (Tick (PPU s0) \<ge> 321 \<and> Tick (PPU s0) \<le> 336)) \<and>
           Tick (PPU s0) mod 8 = 0);
     s1 \<leftarrow> (if isDrawing then drawPixel mp s0 else Some s0);
     s2 \<leftarrow> (if isFetching then do {
               t \<leftarrow> loadTile mp s1;
               Some (if Tick (PPU t) = 256 then t\<lparr>PPU := incrementY (PPU t)\<rparr>
                     else t\<lparr>PPU := incrementCoarseX (PPU t)\<rparr>)
             } else Some s1);
     (outputImage, s3) \<leftarrow>
        (if isVBlankLine \<and> Tick (PPU s2) = 1 then do {
           let a = s2\<lparr>PPU := (PPU s2)\<lparr>flagVBlankOutstanding := True\<rparr>\<rparr>;
           b \<leftarrow> (if flagNMIOnVBlank (PPU a) then map_option snd (NMI mp a) else Some a);
           Some (Some (img (PPU b)), b)
         }
         else if isPrerender \<and> Tick (PPU s2) = 1
         then Some (None, s2\<lparr>PPU := (PPU s2)\<lparr>flagVBlankOutstanding := False,
                                               flagScanlineSpritesMax := False,
                                               flagSprite0Hit := False\<rparr>\<rparr>)
         else Some (None, s2));
     s4 \<leftarrow> (if isRendering \<and> Tick (PPU s3) = 257 then loadSprites mp s3 else Some s3);
     let s5 = (if (isVisible \<or> isPrerender)
                  \<and> (flagShowBackground (PPU s4) \<or> flagShowSprites (PPU s4))
                  \<and> Tick (PPU s4) = 260
               then s4\<lparr>Cart := NextScanline mp (Cart s4)\<rparr> else s4);
     let s6 = (if isRendering then
                 (if (isVisible \<or> isPrerender) \<and> Tick (PPU s5) = 257
                  then s5\<lparr>PPU := copyHorizontalBitsToV (PPU s5)\<rparr>
                  else if isPrerender \<and> Tick (PPU s5) = 304
                  then s5\<lparr>PPU := copyVerticalBitsToV (PPU s5)\<rparr>
                  else s5)
               else s5);
     let s7 = s6\<lparr>PPU := (PPU s6)\<lparr>numCycles := numCycles (PPU s6) + 1\<rparr>\<rparr>;
     Some ((numCycles (PPU s7), outputImage), s7)
   }"

section \<open>Power-on state\<close>

text \<open>\<^verbatim>\<open>func (p *PPU) setupPalette()\<close>: the 64 colours, red, green, blue, alpha.\<close>

definition palette_table :: "RGBA list" where
  "palette_table =
     [(0x75, 0x75, 0x75, 0xFF), (0x27, 0x1B, 0x8F, 0xFF), (0x00, 0x00, 0xAB, 0xFF), (0x47, 0x00, 0x9F, 0xFF),
      (0x8F, 0x00, 0x77, 0xFF), (0xAB, 0x00, 0x13, 0xFF), (0xA7, 0x00, 0x00, 0xFF), (0x7F, 0x0B, 0x00, 0xFF),
      (0x43, 0x2F, 0x00, 0xFF), (0x00, 0x47, 0x00, 0xFF), (0x00, 0x51, 0x00, 0xFF), (0x00, 0x3F, 0x17, 0xFF),
      (0x1B, 0x3F, 0x5F, 0xFF), (0x00, 0x00, 0x00, 0xFF), (0x00, 0x00, 0x00, 0xFF), (0x00, 0x00, 0x00, 0xFF),
      (0xBC, 0xBC, 0xBC, 0xFF), (0x00, 0x73, 0xEF, 0xFF), (0x23, 0x3B, 0xEF, 0xFF), (0x83, 0x00, 0xF3, 0xFF),
      (0xBF, 0x00, 0xBF, 0xFF), (0xE7, 0x00, 0x5B, 0xFF), (0xDB, 0x2B, 0x00, 0xFF), (0xCB, 0x4F, 0x0F, 0xFF),
      (0x8B, 0x73, 0x00, 0xFF), (0x00, 0x97, 0x00, 0xFF), (0x00, 0xAB, 0x00, 0xFF), (0x00, 0x93, 0x3B, 0xFF),
      (0x00, 0x83, 0x8B, 0xFF), (0x00, 0x00, 0x00, 0xFF), (0x00, 0x00, 0x00, 0xFF), (0x00, 0x00, 0x00, 0xFF),
      (0xFF, 0xFF, 0xFF, 0xFF), (0x3F, 0xBF, 0xFF, 0xFF), (0x5F, 0x97, 0xFF, 0xFF), (0xA7, 0x8B, 0xFD, 0xFF),
      (0xF7, 0x7B, 0xFF, 0xFF), (0xFF, 0x77, 0xB7, 0xFF), (0xFF, 0x77, 0x63, 0xFF), (0xFF, 0x9B, 0x3B, 0xFF),
      (0xF3, 0xBF, 0x3F, 0xFF), (0x83, 0xD3, 0x13, 0xFF), (0x4F, 0xDF, 0x4B, 0xFF), (0x58, 0xF8, 0x98, 0xFF),
      (0x00, 0xEB, 0xDB, 0xFF), (0x00, 0x00, 0x00, 0xFF), (0x00, 0x00, 0x00, 0xFF), (0x00, 0x00, 0x00, 0xFF),
      (0xFF, 0xFF, 0xFF, 0xFF), (0xAB, 0xE7, 0xFF, 0xFF), (0xC7, 0xD7, 0xFF, 0xFF), (0xD7, 0xCB, 0xFF, 0xFF),
      (0xFF, 0xC7, 0xFF, 0xFF), (0xFF, 0xC7, 0xDB, 0xFF), (0xFF, 0xBF, 0xB3, 0xFF), (0xFF, 0xDB, 0xAB, 0xFF),
      (0xFF, 0xE7, 0xA3, 0xFF), (0xE3, 0xFF, 0xA3, 0xFF), (0xAB, 0xF3, 0xBF, 0xFF), (0xB3, 0xFF, 0xCF, 0xFF),
      (0x9F, 0xFF, 0xF3, 0xFF), (0x00, 0x00, 0x00, 0xFF), (0x00, 0x00, 0x00, 0xFF), (0x00, 0x00, 0x00, 0xFF)]"

definition setupPalette :: "byte \<Rightarrow> RGBA" where
  "setupPalette i = (if unat i < 64 then palette_table ! unat i else (0, 0, 0, 0))"

text \<open>\<^verbatim>\<open>NewPPU\<close>, \<^verbatim>\<open>NewJoypad\<close>, and the CPU that \<^verbatim>\<open>NewCPU\<close> builds before it loads \<open>PC\<close> from
  the reset vector.\<close>

definition NewPPU :: PPU where
  "NewPPU =
     \<lparr>img = (\<lambda>pt. (0, 0, 0, 0)), palette = setupPalette, Scanline = 241, Tick = 0, Frame = 0,
      numCycles = 0, ram = (\<lambda>a. 0), sprRAM = (\<lambda>a. 0), spriteTableAddress = 0,
      backgroundTableAddress = 0, flagIncrementBy32 = False, flagLargeSprites = False,
      flagNMIOnVBlank = False, flagColourMode = False, flagClipBackground = False,
      flagClipSprites = False, flagShowBackground = True, flagShowSprites = False,
      flagRedEmphasis = False, flagGreenEmphasis = False, flagBlueEmphasis = False,
      flagVRAMWritesIgnored = False, flagScanlineSpritesMax = False, flagSprite0Hit = False,
      flagVBlankOutstanding = False, ppu_v = 0, ppu_t = 0, ppu_x = 0, ppu_w = 0,
      fgPixels = (\<lambda>i. None), fgPixelIsSprite0 = (\<lambda>i. False), fgPixelIsInFront = (\<lambda>i. False),
      bgPixels = (\<lambda>i. None), sprIOAddress = 0, readBuffer = 0\<rparr>"

definition NewJoypad :: Joypad where
  "NewJoypad =
     \<lparr>joy_A = False, joy_B = False, Select = False, Start = False, Up = False, Down = False,
      Left = False, Right = False, readKeys = None, joy_i = 0, strobe = False\<rparr>"

definition NewCPU_fields :: CPU where
  "NewCPU_fields =
     \<lparr>RAM = (\<lambda>a. 0), NumCycles = 0, PC = 0, SP = 0xFD, cpu_A = 0, cpu_X = 0, cpu_Y = 0,
      flagCarry = False, flagZero = False, flagInterruptDisable = True, flagDecimalMode = False,
      flagBreak = False, flagOverflow = False, flagSign = False\<rparr>"

text \<open>\<^verbatim>\<open>NewConsole\<close> with \<^verbatim>\<open>NewCPU\<close>: the program counter is read from the reset vector.\<close>

definition NewConsole :: "'c Mapper \<Rightarrow> 'c \<Rightarrow> 'c Console option" where
  "NewConsole mp cart = do {
     let s0 = \<lparr>Cart = cart, CPU = NewCPU_fields, PPU = NewPPU, Joypads = (NewJoypad, NewJoypad)\<rparr>;
     (pc, s1) \<leftarrow> read16 mp s0 ResetVector;
     Some (s1\<lparr>CPU := (CPU s1)\<lparr>PC := pc\<rparr>\<rparr>)
   }"

text \<open>The console at power-on with the MMC1 mapper over \<open>example_cart\<close>, whose reset vector
  is 0 (lemma \<open>NewConsole_example\<close>).\<close>

definition example_console :: "Mapper1 Console" where
  "example_console =
     \<lparr>Cart = NewMapper1 example_cart, CPU = NewCPU_fields, PPU = NewPPU,
      Joypads = (NewJoypad, NewJoypad)\<rparr>"

text \<open>The power-on console with the work RAM \<open>r\<close>, and with a value in the accumulator, an
  operand byte at $0010 and the carry flag set.\<close>

definition ram_console :: "(uint16 \<Rightarrow> byte) \<Rightarrow> Mapper1 Console" where
  "ram_console r = example_console\<lparr>CPU := (CPU example_console)\<lparr>RAM := r\<rparr>\<rparr>"

definition adc_console :: "byte \<Rightarrow> byte \<Rightarrow> Mapper1 Console" where
  "adc_console a m =
     example_console\<lparr>CPU := (CPU example_console)\<lparr>RAM := (\<lambda>a. 0)(0x10 := m), cpu_A := a,
                                                  flagCarry := True\<rparr>\<rparr>"

section \<open>Opcode table\<close>

text \<open>
  Entries of the table that \<^verbatim>\<open>loadInstructions\<close> builds: those of the operations modelled
  above, and the entry \<^verbatim>\<open>{"x02", c.xxx, 0, 0, 0, nil}\<close> of the invalid opcode $02. The table
  has 19 such entries of size 0, all with \<^verbatim>\<open>c.xxx\<close> and \<^verbatim>\<open>nil\<close>. In this excerpt the opcodes
  whose operation is not modelled here carry the entry of $02; the excerpt serves the
  concrete instances only, and every theorem about \<open>CPU_Step\<close> is stated for an arbitrary
  table.
\<close>

definition instructions_excerpt :: "'c Mapper \<Rightarrow> byte \<Rightarrow> 'c instruction" where
  "instructions_excerpt mp opcode =
     (if opcode = 0x08 then
        \<lparr>Name = ''PHP'', Impl = php mp, Size = 1, NumBaseCycles = 3, NumPageCrossCycles = 0,
         GetAddressImpl = Some getAddrImplied\<rparr>
      else if opcode = 0x28 then
        \<lparr>Name = ''PLP'', Impl = plp mp, Size = 1, NumBaseCycles = 4, NumPageCrossCycles = 0,
         GetAddressImpl = Some getAddrImplied\<rparr>
      else if opcode = 0x61 then
        \<lparr>Name = ''ADC'', Impl = adc mp, Size = 2, NumBaseCycles = 6, NumPageCrossCycles = 0,
         GetAddressImpl = Some (getAddrIndirectX mp)\<rparr>
      else if opcode = 0x69 then
        \<lparr>Name = ''ADC'', Impl = adc mp, Size = 2, NumBaseCycles = 2, NumPageCrossCycles = 0,
         GetAddressImpl = Some getAddrImmediate\<rparr>
      else if opcode = 0x6C then
        \<lparr>Name = ''JMP'', Impl = jmp, Size = 3, NumBaseCycles = 5, NumPageCrossCycles = 0,
         GetAddressImpl = Some (getAddrIndirect mp)\<rparr>
      else if opcode = 0x71 then
        \<lparr>Name = ''ADC'', Impl = adc mp, Size = 2, NumBaseCycles = 5, NumPageCrossCycles = 1,
         GetAddressImpl = Some (getAddrIndirectY mp)\<rparr>
      else if opcode = 0xE9 then
        \<lparr>Name = ''SBC'', Impl = sbc mp, Size = 2, NumBaseCycles = 2, NumPageCrossCycles = 0,
         GetAddressImpl = Some getAddrImmediate\<rparr>
      else
        \<lparr>Name = ''x02'', Impl = xxx, Size = 0, NumBaseCycles = 0, NumPageCrossCycles = 0,
         GetAddressImpl = None\<rparr>)"

section \<open>Registers kept by the rendering steps\<close>

text \<open>
  The timing counters, the scroll registers \<open>v\<close> and \<open>t\<close> and the two rendering flags of the
  PPU, to state what the parts of \<open>PPU_Step\<close> leave unchanged.
\<close>

definition ppu_core :: "PPU \<Rightarrow> (int \<times> int \<times> uint64) \<times> (uint16 \<times> uint16) \<times> (bool \<times> bool)" where
  "ppu_core p = ((Scanline p, Tick p, Frame p), (ppu_v p, ppu_t p),
                 (flagShowBackground p, flagShowSprites p))"

text \<open>The same without \<open>v\<close>, which the tile fetches advance.\<close>

definition ppu_kept :: "PPU \<Rightarrow> (int \<times> int \<times> uint64) \<times> uint16 \<times> (bool \<times> bool)" where
  "ppu_kept p = ((Scanline p, Tick p, Frame p), ppu_t p, (flagShowBackground p, flagShowSprites p))"

section \<open>Theorems\<close>

text \<open>
  C1. Every call of MMC3's NextScanline reloads the counter from the latch and clears the
  pending flag when the counter is zero or a reload is pending, and otherwise decrements the
  counter by one (no wrap-around: it was not zero). The call asserts the IRQ exactly when the
  updated counter is zero and the IRQ is enabled: in that case the asserted state is true
  afterwards, in every other case the call leaves the asserted state as it was. Nothing but
  the counter, the pending flag and the asserted state changes. A following poll of IRQ
  returns the asserted state and leaves it cleared.
\<close>

theorem C1_mmc3_next_scanline:
  "(let m' = Mapper4_NextScanline m in
     (if irqCounter m = 0 \<or> irqReloadPending m
      then irqCounter m' = irqLatch m \<and> irqReloadPending m' = False
      else irqCounter m' = irqCounter m - 1 \<and> unat (irqCounter m') + 1 = unat (irqCounter m)
           \<and> irqReloadPending m' = irqReloadPending m)
     \<and> (if irqCounter m' = 0 \<and> irqEnable m then irqAssert m' = True
         else irqAssert m' = irqAssert m)
     \<and> irqEnable m' = irqEnable m \<and> irqLatch m' = irqLatch m
     \<and> m' = m\<lparr>irqCounter := irqCounter m', irqReloadPending := irqReloadPending m',
               irqAssert := irqAssert m'\<rparr>
     \<and> fst (Mapper4_IRQ m') = irqAssert m'
     \<and> snd (Mapper4_IRQ m') = m'\<lparr>irqAssert := False\<rparr>
     \<and> fst (Mapper4_IRQ (snd (Mapper4_IRQ m'))) = False)"
proof -
  have dec: "Suc (unat (c - 1)) = unat c" if "c \<noteq> 0" for c :: byte
    using that by (simp add: unat_minus_one unat_gt_0)
  show ?thesis
    by (auto simp: Mapper4_NextScanline_def Mapper4_IRQ_def Let_def dec)
qed

subsection \<open>MMC1 shift register\<close>

lemma byte_lt_32_bits:
  fixes sr :: byte
  assumes "sr < 0x20"
  shows "5 \<le> n \<Longrightarrow> \<not> bit sr n"
proof -
  have "sr < 2 ^ 5" using assms by simp
  then have "take_bit 5 sr = sr"
    by (simp add: less_mask_eq take_bit_eq_mask)
  then show "5 \<le> n \<Longrightarrow> \<not> bit sr n"
    by (metis bit_take_bit_iff not_le)
qed


lemma byte_bit_cases:
  assumes "n < 8" and "P 0" "P 1" "P 2" "P 3" "P 4" "P 5" "P 6" "P 7"
  shows "P (n::nat)"
proof -
  have "n \<in> {0, 1, 2, 3, 4, 5, 6, 7}" using assms(1) by auto
  then show ?thesis using assms(2-) by auto
qed


lemma step_bound:
  fixes sr :: byte
  assumes "sr < 0x20"
  shows "drop_bit 1 sr OR push_bit 4 (v AND 1) < 0x20"
proof -
  note b = byte_lt_32_bits[OF assms]
  let ?w = "drop_bit 1 sr OR push_bit 4 (v AND 1)"
  have "?w AND mask 5 = ?w"
  proof (rule bit_word_eqI)
    fix n assume "n < LENGTH(8)"
    then have n: "n < 8" by simp
    show "bit (?w AND mask 5) n = bit ?w n"
      by (rule byte_bit_cases[OF n]) (simp_all add: bit_simps b)
  qed
  then have "?w < 2 ^ 5"
    by (simp add: mask_eq_iff_w2p word_size)
  then show ?thesis by simp
qed


lemma shift_in_bound: "sr < 0x20 \<Longrightarrow> shift_in sr b < 0x20"
  unfolding shift_in_def by (rule step_bound)




lemma Mapper1_shiftRegister_bound:
  "shiftRegister (NewMapper1 cart) < 0x20"
  "shiftRegister m < 0x20 \<Longrightarrow> Mapper1_Write m a b isPPU = Some m' \<Longrightarrow> shiftRegister m' < 0x20"
proof -
  show "shiftRegister (NewMapper1 cart) < 0x20" by (simp add: NewMapper1_def)
  have l: "shiftRegister (Mapper1_latch a n) = shiftRegister n" for n
    by (simp add: Mapper1_latch_def Let_def)
  assume "shiftRegister m < 0x20" "Mapper1_Write m a b isPPU = Some m'"
  then show "shiftRegister m' < 0x20"
    using step_bound[of "shiftRegister m" b]
    by (auto simp: Mapper1_Write_def Let_def l split: if_splits)
qed




subsection \<open>The CPU bus and the stack\<close>

lemma NewConsole_example: "NewConsole Mapper1_ops (NewMapper1 example_cart) = Some example_console"
  by (simp add: NewConsole_def example_console_def read16_def CPU_read_def ResetVector_def
      Mapper1_ops_def Mapper1_Read_def NewMapper1_def example_cart_def slice_get_def
      NewCPU_fields_def)

lemma CPU_read_frame:
  assumes "CPU_read mp s a = Some (b, s')"
  shows "CPU s' = CPU s" "Cart s' = Cart s" "sprRAM (PPU s') = sprRAM (PPU s)"
        "sprIOAddress (PPU s') = sprIOAddress (PPU s)"
  using assms
  by (auto simp: CPU_read_def ReadData_def StatusRegister_def Let_def
      split: if_splits option.splits prod.splits)

lemma CPU_read_RAM:
  "a < 0x2000 \<Longrightarrow> CPU_read mp s a = Some (RAM (CPU s) (a AND 0x7FF), s)"
  by (simp add: CPU_read_def)

lemma CPU_write_RAM:
  "a < 0x2000 \<Longrightarrow> CPU_write mp s a b
     = Some (0, s\<lparr>CPU := (CPU s)\<lparr>RAM := (RAM (CPU s))(a AND 0x7FF := b)\<rparr>\<rparr>)"
  by (simp add: CPU_write_def)

lemma unat_ucast_byte: "unat (ucast (sp :: byte) :: uint16) = unat sp"
proof -
  have "unat sp < 2 ^ 16" using unsigned_less[of sp, where ?'a = nat] by simp
  then show ?thesis by (simp add: unsigned_ucast_eq take_bit_nat_eq_self)
qed

lemma unat_stack: "unat (0x100 + ucast (sp :: byte) :: uint16) = 0x100 + unat sp"
  using unsigned_less[of sp, where ?'a = nat] by (simp add: unat_word_ariths unat_ucast_byte)

lemma stack_lt: "(0x100 + ucast (sp :: byte) :: uint16) < 0x2000"
  using unsigned_less[of sp, where ?'a = nat] by (simp add: word_less_nat_alt unat_stack)

lemma stack_mask: "(0x100 + ucast (sp :: byte) :: uint16) AND 0x7FF = 0x100 + ucast sp"
proof -
  have "(0x100 + ucast sp :: uint16) < 2 ^ 11"
    using unsigned_less[of sp, where ?'a = nat] by (simp add: word_less_nat_alt unat_stack)
  then have "(0x100 + ucast sp :: uint16) AND mask 11 = 0x100 + ucast sp"
    by (rule less_mask_eq)
  then show ?thesis by (simp add: mask_eq_decr_exp)
qed

lemma stack_pop_addr:
  assumes "sp \<noteq> (0 :: byte)"
  shows "(0x100 + ucast (sp - 1) + 1 :: uint16) = 0x100 + ucast sp"
proof -
  have "unat (sp - 1) = unat sp - 1" using assms by (simp add: unat_minus_one)
  moreover have "0 < unat sp" using assms by (simp add: unat_gt_0)
  ultimately have "unat (0x100 + ucast (sp - 1) + 1 :: uint16) = unat (0x100 + ucast sp :: uint16)"
    using unsigned_less[of sp, where ?'a = nat]
    by (simp add: unat_word_ariths unat_ucast_byte)
  then show ?thesis by (simp add: word_unat_eq_iff)
qed

lemma push8_stack:
  "push8 mp s b = Some (s\<lparr>CPU := (CPU s)\<lparr>RAM := (RAM (CPU s))(0x100 + ucast (SP (CPU s)) := b),
                                       SP := SP (CPU s) - 1\<rparr>\<rparr>)"
  by (simp add: push8_def StackBase_def CPU_write_RAM stack_lt stack_mask)

lemma pop8_stack:
  assumes "SP (CPU s) \<noteq> 0xFF"
  shows "pop8 mp s = Some (RAM (CPU s) (0x100 + ucast (SP (CPU s) + 1)),
                           s\<lparr>CPU := (CPU s)\<lparr>SP := SP (CPU s) + 1\<rparr>\<rparr>)"
proof -
  have "SP (CPU s) + 1 \<noteq> 0"
  proof
    assume "SP (CPU s) + 1 = 0"
    then have "SP (CPU s) = - 1" by (simp add: eq_neg_iff_add_eq_0)
    then show False using assms by simp
  qed
  from stack_pop_addr[OF this]
  have e: "StackBase + ucast (SP (CPU s)) + 1 = 0x100 + ucast (SP (CPU s) + 1)"
    unfolding StackBase_def by simp
  show ?thesis
    unfolding pop8_def by (simp only: e) (simp add: CPU_read_RAM stack_lt stack_mask)
qed

lemma P_roundtrip:
  "((CPU_P c OR 0x10) AND 0xEF) AND 0x01 \<noteq> 0 \<longleftrightarrow> flagCarry c"
  "((CPU_P c OR 0x10) AND 0xEF) AND 0x02 \<noteq> 0 \<longleftrightarrow> flagZero c"
  "((CPU_P c OR 0x10) AND 0xEF) AND 0x04 \<noteq> 0 \<longleftrightarrow> flagInterruptDisable c"
  "((CPU_P c OR 0x10) AND 0xEF) AND 0x08 \<noteq> 0 \<longleftrightarrow> flagDecimalMode c"
  "((CPU_P c OR 0x10) AND 0xEF) AND 0x10 = 0"
  "((CPU_P c OR 0x10) AND 0xEF) AND 0x40 \<noteq> 0 \<longleftrightarrow> flagOverflow c"
  "((CPU_P c OR 0x10) AND 0xEF) AND 0x80 \<noteq> 0 \<longleftrightarrow> flagSign c"
  by (cases "flagCarry c"; cases "flagZero c"; cases "flagInterruptDisable c";
      cases "flagDecimalMode c"; cases "flagBreak c"; cases "flagOverflow c";
      cases "flagSign c"; simp add: CPU_P_def)+

lemma cat_bytes:
  fixes l h :: byte
  shows "ucast (ucast l OR push_bit 8 (ucast h) :: uint16) = l"
    and "ucast (drop_bit 8 (ucast l OR push_bit 8 (ucast h) :: uint16)) = h"
  by (rule bit_word_eqI; auto simp: bit_simps dest: bit_imp_le_length)+

subsection \<open>Indirect addressing\<close>

text \<open>
  C2. For every pointer address \<open>p\<close>, the 16-bit read of indirect JMP and of the indirect-X
  and indirect-Y addressing modes reads the low byte at \<open>p\<close> and then the high byte at
  \<open>p + 1\<close> when the low byte of \<open>p\<close> is not $FF, and at the start of the same page,
  \<open>p AND $FF00\<close>, when it is $FF; it returns exactly when both reads return, and the low and
  high bytes of its result are the two bytes read. \<open>getAddrIndirect\<close> applies it to the
  pointer read at \<open>PC + 1\<close>, \<open>getAddrIndirectX\<close> to the zero-page pointer \<open>(zp + X) mod 256\<close>,
  \<open>getAddrIndirectY\<close> to the zero-page pointer \<open>zp\<close>, adding \<open>Y\<close> afterwards.
\<close>

theorem C2_read16_page_boundary_bug:
  "read16WithPageBoundaryBug mp s p =
     (case CPU_read mp s p of
        None \<Rightarrow> None
      | Some (l, s1) \<Rightarrow>
          (case CPU_read mp s1 (if p AND 0xFF = 0xFF then p AND 0xFF00 else p + 1) of
             None \<Rightarrow> None
           | Some (h, s2) \<Rightarrow> Some (ucast l OR push_bit 8 (ucast h), s2)))
   \<and> (\<forall>r s'. read16WithPageBoundaryBug mp s p = Some (r, s') \<longrightarrow>
         (\<exists>s1. CPU_read mp s p = Some (ucast r, s1)
             \<and> CPU_read mp s1 (if p AND 0xFF = 0xFF then p AND 0xFF00 else p + 1)
                  = Some (ucast (drop_bit 8 r), s')))
   \<and> getAddrIndirect mp s =
        (case read16 mp s (PC (CPU s) + 1) of
           None \<Rightarrow> None
         | Some (pointer, s1) \<Rightarrow>
             map_option (\<lambda>(address, s2). ((address, False), s2))
               (read16WithPageBoundaryBug mp s1 pointer))
   \<and> getAddrIndirectX mp s =
        (case CPU_read mp s (PC (CPU s) + 1) of
           None \<Rightarrow> None
         | Some (b, s1) \<Rightarrow>
             map_option (\<lambda>(address, s2). ((address, False), s2))
               (read16WithPageBoundaryBug mp s1 (ucast (b + cpu_X (CPU s)))))
   \<and> getAddrIndirectY mp s =
        (case CPU_read mp s (PC (CPU s) + 1) of
           None \<Rightarrow> None
         | Some (b, s1) \<Rightarrow>
             map_option (\<lambda>(address, s2).
                 ((address + ucast (cpu_Y (CPU s)),
                   \<not> pagesEqual address (address + ucast (cpu_Y (CPU s)))), s2))
               (read16WithPageBoundaryBug mp s1 (ucast b)))"
proof -
  have eq: "read16WithPageBoundaryBug mp s p =
     (case CPU_read mp s p of
        None \<Rightarrow> None
      | Some (l, s1) \<Rightarrow>
          (case CPU_read mp s1 (if p AND 0xFF = 0xFF then p AND 0xFF00 else p + 1) of
             None \<Rightarrow> None
           | Some (h, s2) \<Rightarrow> Some (ucast l OR push_bit 8 (ucast h), s2)))" for s p
    by (simp add: read16WithPageBoundaryBug_def Let_def split: option.splits prod.splits)
  have bytes: "\<exists>s1. CPU_read mp s p = Some (ucast r, s1)
             \<and> CPU_read mp s1 (if p AND 0xFF = 0xFF then p AND 0xFF00 else p + 1)
                  = Some (ucast (drop_bit 8 r), s')"
    if "read16WithPageBoundaryBug mp s p = Some (r, s')" for r s'
  proof -
    from that obtain l s1 h where
      l: "CPU_read mp s p = Some (l, s1)" and
      h: "CPU_read mp s1 (if p AND 0xFF = 0xFF then p AND 0xFF00 else p + 1) = Some (h, s')" and
      r: "r = ucast l OR push_bit 8 (ucast h)"
      unfolding eq by (auto split: option.splits prod.splits)
    show ?thesis using l h unfolding r cat_bytes by blast
  qed
  have X: "CPU_read mp s a = Some (b, s1) \<Longrightarrow> cpu_X (CPU s1) = cpu_X (CPU s)
       \<and> cpu_Y (CPU s1) = cpu_Y (CPU s)" for a b s1 s
    using CPU_read_frame(1)[of mp s a b s1] by simp
  have Y: "read16WithPageBoundaryBug mp s1 q = Some (r, s2) \<Longrightarrow> cpu_Y (CPU s2) = cpu_Y (CPU s1)"
    for s1 q r s2
    unfolding eq using CPU_read_frame(1)[of mp]
    by (auto split: option.splits prod.splits)
  have i: "getAddrIndirect mp s =
        (case read16 mp s (PC (CPU s) + 1) of
           None \<Rightarrow> None
         | Some (pointer, s1) \<Rightarrow>
             map_option (\<lambda>(address, s2). ((address, False), s2))
               (read16WithPageBoundaryBug mp s1 pointer))"
    by (auto simp: getAddrIndirect_def split: option.splits Option.bind_splits)
  have ix: "getAddrIndirectX mp s =
        (case CPU_read mp s (PC (CPU s) + 1) of
           None \<Rightarrow> None
         | Some (b, s1) \<Rightarrow>
             map_option (\<lambda>(address, s2). ((address, False), s2))
               (read16WithPageBoundaryBug mp s1 (ucast (b + cpu_X (CPU s)))))"
    by (auto simp: getAddrIndirectX_def Let_def X split: option.splits Option.bind_splits)
  have iy: "getAddrIndirectY mp s =
        (case CPU_read mp s (PC (CPU s) + 1) of
           None \<Rightarrow> None
         | Some (b, s1) \<Rightarrow>
             map_option (\<lambda>(address, s2).
                 ((address + ucast (cpu_Y (CPU s)),
                   \<not> pagesEqual address (address + ucast (cpu_Y (CPU s)))), s2))
               (read16WithPageBoundaryBug mp s1 (ucast b)))"
    by (auto simp: getAddrIndirectY_def Let_def X Y split: option.splits Option.bind_splits)
  show ?thesis using eq[of s p] bytes i ix iy by blast
qed

text \<open>The theorem in RAM: the pointer $02FF takes its high byte from $0200, not $0300.\<close>

theorem C2_read16_page_boundary_bug_witness:
  "read16WithPageBoundaryBug Mapper1_ops
     (ram_console ((\<lambda>a. 0)(0x02FF := 0x34, 0x0200 := 0x12, 0x0300 := 0x56))) 0x02FF
     = Some (0x1234, ram_console ((\<lambda>a. 0)(0x02FF := 0x34, 0x0200 := 0x12, 0x0300 := 0x56)))
   \<and> CPU_read Mapper1_ops
         (ram_console ((\<lambda>a. 0)(0x02FF := 0x34, 0x0200 := 0x12, 0x0300 := 0x56))) 0x0200
     = Some (0x12, ram_console ((\<lambda>a. 0)(0x02FF := 0x34, 0x0200 := 0x12, 0x0300 := 0x56)))"
  using C2_read16_page_boundary_bug [of Mapper1_ops
      "ram_console ((\<lambda>a. 0)(0x02FF := 0x34, 0x0200 := 0x12, 0x0300 := 0x56))" "0x02FF"]
  by (simp add: CPU_read_def ram_console_def)

subsection \<open>PHP and PLP\<close>

text \<open>
  C6 (as amended). For every CPU state whose stack pointer is not 0, executing PHP followed
  by PLP returns, leaves each of the six status flags C, Z, I, D, V, N equal to its value
  before the PHP, leaves the B flag clear (PHP pushes \<open>P OR $10\<close>, PLP masks $10 off), and
  restores the stack pointer; the only other change is the stack byte written by the PHP.
\<close>

theorem C6_php_plp:
  assumes "SP (CPU s) \<noteq> 0"
  shows "(let s' = s\<lparr>CPU := (CPU s)\<lparr>RAM := (RAM (CPU s))
                        (0x100 + ucast (SP (CPU s)) := CPU_P (CPU s) OR 0x10),
                      flagBreak := False\<rparr>\<rparr>
          in (php mp s a \<bind> (\<lambda>(cycles, s1). plp mp s1 a')) = Some (0, s')
           \<and> flagCarry (CPU s') = flagCarry (CPU s)
           \<and> flagZero (CPU s') = flagZero (CPU s)
           \<and> flagInterruptDisable (CPU s') = flagInterruptDisable (CPU s)
           \<and> flagDecimalMode (CPU s') = flagDecimalMode (CPU s)
           \<and> flagOverflow (CPU s') = flagOverflow (CPU s)
           \<and> flagSign (CPU s') = flagSign (CPU s)
           \<and> flagBreak (CPU s') = False
           \<and> SP (CPU s') = SP (CPU s))"
proof -
  let ?s1 = "s\<lparr>CPU := (CPU s)\<lparr>RAM := (RAM (CPU s))
                  (0x100 + ucast (SP (CPU s)) := CPU_P (CPU s) OR 0x10),
                SP := SP (CPU s) - 1\<rparr>\<rparr>"
  have php: "php mp s a = Some (0, ?s1)"
    by (simp add: php_def push8_stack)
  have "SP (CPU ?s1) \<noteq> 0xFF"
  proof
    assume "SP (CPU ?s1) = 0xFF"
    then have "SP (CPU s) - 1 = - 1" by simp
    then have "SP (CPU s) = 0" by (simp only: diff_eq_eq) simp
    then show False using assms by simp
  qed
  from pop8_stack[OF this, of mp]
  have pop: "pop8 mp ?s1 = Some (CPU_P (CPU s) OR 0x10, s\<lparr>CPU := (CPU s)\<lparr>RAM := (RAM (CPU s))
                  (0x100 + ucast (SP (CPU s)) := CPU_P (CPU s) OR 0x10)\<rparr>\<rparr>)"
    by simp
  show ?thesis
    by (simp add: php plp_def pop Let_def P_roundtrip)
qed

text \<open>The theorem at power-on (\<open>SP = $FD\<close>, \<open>P = $24\<close>): the PHP stores $34 at $01FD.\<close>

theorem C6_php_plp_witness:
  "SP (CPU example_console) \<noteq> 0
   \<and> map_option (\<lambda>(cycles, s). (CPU_P (CPU s), SP (CPU s), RAM (CPU s) 0x1FD))
        (php Mapper1_ops example_console 0 \<bind> (\<lambda>(cycles, s1). plp Mapper1_ops s1 0))
       = Some (CPU_P (CPU example_console), 0xFD, 0x34)"
  using C6_php_plp [of example_console Mapper1_ops 0 0]
  by (simp add: example_console_def NewCPU_fields_def CPU_P_def Let_def)

text \<open>
  C6 as stated fails for the B flag: with B set before the PHP (as BRK leaves it), B is clear
  after the PLP.
\<close>

theorem C6_break_flag_counterexample:
  "flagBreak (CPU (example_console\<lparr>CPU := (CPU example_console)\<lparr>flagBreak := True\<rparr>\<rparr>))
   \<and> map_option (\<lambda>(cycles, s). flagBreak (CPU s))
        (php Mapper1_ops (example_console\<lparr>CPU := (CPU example_console)\<lparr>flagBreak := True\<rparr>\<rparr>) 0
           \<bind> (\<lambda>(cycles, s1). plp Mapper1_ops s1 0))
       = Some False"
  by (simp add: php_def plp_def push8_def pop8_def CPU_write_def CPU_read_def StackBase_def
      example_console_def NewCPU_fields_def CPU_P_def)

lemma and_1_bit0: "(b AND 1 \<noteq> 0) = bit (b :: byte) 0"
  by (simp add: and_one_eq bit_0 mod_2_eq_odd)

subsection \<open>Joypad strobe\<close>

text \<open>
  C8 (as amended). Each joypad has its own strobe: for every byte \<open>b\<close>, a CPU bus write of
  \<open>b\<close> to $4016 applies \<open>Joypad.Write\<close> to Joypad[0] only and leaves Joypad[1] as it was, and
  a write to $4017 applies it to Joypad[1] only; \<open>Joypad.Write\<close> sets the strobe of its
  joypad to bit 0 of \<open>b\<close> and resets its read index.
\<close>

theorem C8_joypad_strobe:
  "CPU_write mp s 0x4016 b
      = Some (0, s\<lparr>Joypads := (Joypad_Write b (fst (Joypads s)), snd (Joypads s))\<rparr>)
   \<and> CPU_write mp s 0x4017 b
      = Some (0, s\<lparr>Joypads := (fst (Joypads s), Joypad_Write b (snd (Joypads s)))\<rparr>)
   \<and> strobe (Joypad_Write b j) = bit b 0
   \<and> joy_i (Joypad_Write b j) = 0"
  by (auto simp: CPU_write_def Joypad_Write_def Let_def and_1_bit0[symmetric] split: option.splits)

text \<open>
  C8 as stated fails: at power-on both strobes are low, and after one write of $01 to $4016
  the strobe of Joypad[0] is high and the strobe of Joypad[1] is still low.
\<close>

theorem C8_second_joypad_counterexample:
  "map_option (\<lambda>(cycles, s). (strobe (fst (Joypads s)), strobe (snd (Joypads s))))
     (CPU_write Mapper1_ops example_console 0x4016 0x01) = Some (True, False)"
  by (simp add: CPU_write_def example_console_def Joypad_Write_def NewJoypad_def)

subsection \<open>Invalid opcodes\<close>

text \<open>
  C10. If no IRQ is taken at the start of the step (the interrupt-disable flag is set, or the
  mapper's IRQ poll returns false) and the opcode fetched at \<open>PC\<close> has a table entry of size
  0, then \<open>CPU_Step\<close> returns the pair of 0 and the invalid-instruction error for that opcode
  and \<open>PC\<close>, and the CPU record after the call (PC, SP, A, X, Y, the seven status flags,
  NumCycles, and the work RAM) equals the one before. The console after the call is the one
  the fetch left (a fetch from a PPU register or joypad address changes that device).
\<close>

theorem C10_invalid_opcode:
  assumes noirq: "flagInterruptDisable (CPU s) \<or> \<not> fst (IRQ mp (Cart s))"
    and fetch: "CPU_read mp (if flagInterruptDisable (CPU s) then s
                             else s\<lparr>Cart := snd (IRQ mp (Cart s))\<rparr>) (PC (CPU s))
                  = Some (opcode, s')"
    and size0: "Size (instructions opcode) = 0"
  shows "CPU_Step instructions mp s
           = Some ((0, Some (InvalidInstruction opcode (PC (CPU s)))), s')
         \<and> CPU s' = CPU s"
proof (cases "flagInterruptDisable (CPU s)")
  case True
  with fetch have f: "CPU_read mp s (PC (CPU s)) = Some (opcode, s')" by simp
  from CPU_read_frame(1)[OF f] have c: "CPU s' = CPU s" .
  show ?thesis using True f size0 c by (simp add: CPU_Step_def)
next
  case False
  with noirq have ni: "\<not> fst (IRQ mp (Cart s))" by simp
  from False fetch have f: "CPU_read mp (s\<lparr>Cart := snd (IRQ mp (Cart s))\<rparr>) (PC (CPU s)) = Some (opcode, s')"
    by simp
  from CPU_read_frame(1)[OF f] have c: "CPU s' = CPU s" by simp
  show ?thesis using False ni f size0 c
    by (simp add: CPU_Step_def split_beta Let_def)
qed

text \<open>The theorem at power-on with the invalid opcode $02 at \<open>PC = 0\<close>.\<close>

theorem C10_invalid_opcode_witness:
  "flagInterruptDisable (CPU (ram_console ((\<lambda>a. 0)(0 := 0x02))))
   \<and> CPU_read Mapper1_ops (ram_console ((\<lambda>a. 0)(0 := 0x02))) 0
       = Some (0x02, ram_console ((\<lambda>a. 0)(0 := 0x02)))
   \<and> Size (instructions_excerpt Mapper1_ops 0x02) = 0
   \<and> CPU_Step (instructions_excerpt Mapper1_ops) Mapper1_ops (ram_console ((\<lambda>a. 0)(0 := 0x02)))
       = Some ((0, Some (InvalidInstruction 0x02 0)), ram_console ((\<lambda>a. 0)(0 := 0x02)))"
  using C10_invalid_opcode [where s = "ram_console ((\<lambda>a. 0)(0 := 0x02))" and mp = Mapper1_ops
      and opcode = "0x02" and s' = "ram_console ((\<lambda>a. 0)(0 := 0x02))"
      and instructions = "instructions_excerpt Mapper1_ops"]
  by (simp add: CPU_read_def ram_console_def example_console_def NewCPU_fields_def
      instructions_excerpt_def)

lemma adc_read:
  assumes "CPU_read mp s a = Some (M, t)"
  shows "adc mp s a = Some (0, t\<lparr>CPU := (CPU s)\<lparr>
           flagCarry := (uint (cpu_A (CPU s)) + uint M + (if flagCarry (CPU s) then 1 else 0) > 0xFF),
           cpu_A := cpu_A (CPU s) + M + (if flagCarry (CPU s) then 1 else 0),
           flagZero := (cpu_A (CPU s) + M + (if flagCarry (CPU s) then 1 else 0) = 0),
           flagSign := ((cpu_A (CPU s) + M + (if flagCarry (CPU s) then 1 else 0)) AND 0x80 = 0x80),
           flagOverflow := ((signBitSet (cpu_A (CPU s)) \<and> signBitSet M
                \<and> \<not> signBitSet (cpu_A (CPU s) + M + (if flagCarry (CPU s) then 1 else 0))) \<or>
              (\<not> signBitSet (cpu_A (CPU s)) \<and> \<not> signBitSet M
                \<and> signBitSet (cpu_A (CPU s) + M + (if flagCarry (CPU s) then 1 else 0))))\<rparr>\<rparr>)"
  using assms CPU_read_frame(1)[OF assms]
  by (simp add: adc_def Let_def updateflagZero_def updateflagSign_def)

lemma sbc_read:
  assumes "CPU_read mp s a = Some (M, t)"
  shows "sbc mp s a = Some (0, t\<lparr>CPU := (CPU s)\<lparr>
           flagCarry := (uint (cpu_A (CPU s)) - uint M - (if flagCarry (CPU s) then 0 else 1) \<ge> 0),
           cpu_A := cpu_A (CPU s) - M - (if flagCarry (CPU s) then 0 else 1),
           flagZero := (cpu_A (CPU s) - M - (if flagCarry (CPU s) then 0 else 1) = 0),
           flagSign := ((cpu_A (CPU s) - M - (if flagCarry (CPU s) then 0 else 1)) AND 0x80 = 0x80),
           flagOverflow := ((signBitSet (cpu_A (CPU s)) \<and> \<not> signBitSet M
                \<and> \<not> signBitSet (cpu_A (CPU s) - M - (if flagCarry (CPU s) then 0 else 1))) \<or>
              (\<not> signBitSet (cpu_A (CPU s)) \<and> signBitSet M
                \<and> signBitSet (cpu_A (CPU s) - M - (if flagCarry (CPU s) then 0 else 1))))\<rparr>\<rparr>)"
  using assms CPU_read_frame(1)[OF assms]
  by (simp add: sbc_def Let_def updateflagZero_def updateflagSign_def)

lemma uint_byte_add1: "uint ((A::byte) + M + 1) = (uint A + uint M + 1) mod 256"
  by (simp add: uint_word_ariths mod_add_left_eq)

lemma mod256_low: "(x::int) mod 256 = x" if "0 \<le> x" "x < 256"
  using that by (rule mod_pos_pos_trivial)

lemma mod256_high: "(x::int) mod 256 = x - 256" if "256 \<le> x" "x < 512"
proof -
  have "x mod 256 = (x - 256) mod 256" by (simp add: minus_mod_self2)
  also have "\<dots> = x - 256" using that by (intro mod_pos_pos_trivial) simp_all
  finally show ?thesis .
qed

lemma byte_FF_uint: "((A::byte) = 0xFF) = (uint A = 255)"
  by (simp add: word_uint_eq_iff)

subsection \<open>ADC and SBC\<close>

text \<open>
  C7 (as amended). For every accumulator value \<open>A\<close> and operand byte \<open>M\<close>, executing ADC of
  \<open>M\<close> with the carry flag set and then SBC of the same \<open>M\<close> (with the carry as left by the
  ADC) leaves \<open>A\<close> equal to its original value and the carry flag set whenever the ADC
  produces no carry, that is \<open>A + M + 1 \<le> $FF\<close>. When the ADC carries (\<open>A + M + 1 > $FF\<close>), the
  SBC borrows nothing and the accumulator ends as \<open>A + 1\<close> modulo 256, with the carry set
  only for \<open>A = $FF\<close>.
\<close>

theorem C7_adc_sbc:
  assumes carry: "flagCarry (CPU s)"
    and adc: "adc mp s a1 = Some (r1, s1)"
    and sbc: "sbc mp s1 a2 = Some (r2, s2)"
    and m1: "map_option fst (CPU_read mp s a1) = Some M"
    and m2: "map_option fst (CPU_read mp s1 a2) = Some M"
  shows "flagCarry (CPU s1) = (uint (cpu_A (CPU s)) + uint M + 1 > 0xFF)
     \<and> cpu_A (CPU s2) = (if uint (cpu_A (CPU s)) + uint M + 1 > 0xFF then cpu_A (CPU s) + 1
                          else cpu_A (CPU s))
     \<and> flagCarry (CPU s2) = (uint (cpu_A (CPU s)) + uint M + 1 \<le> 0xFF \<or> cpu_A (CPU s) = 0xFF)"
proof -
  from m1 obtain t1 where t1: "CPU_read mp s a1 = Some (M, t1)" by auto
  from m2 obtain t2 where t2: "CPU_read mp s1 a2 = Some (M, t2)" by auto
  define A where "A = cpu_A (CPU s)"
  define A1 where "A1 = cpu_A (CPU s1)"
  from adc adc_read[OF t1] carry
  have s1: "A1 = A + M + 1" "flagCarry (CPU s1) = (uint A + uint M + 1 > 0xFF)"
    unfolding A_def A1_def by auto
  from sbc sbc_read[OF t2]
  have s2: "cpu_A (CPU s2) = A1 - M - (if flagCarry (CPU s1) then 0 else 1)"
       "flagCarry (CPU s2)
          = (uint A1 - uint M - (if flagCarry (CPU s1) then 0 else 1) \<ge> 0)"
    unfolding A1_def by auto
  have b: "0 \<le> uint A" "uint A < 256" "0 \<le> uint M" "uint M < 256"
    using uint_lt2p[of A] uint_lt2p[of M] by simp_all
  show ?thesis
  proof (cases "uint A + uint M + 1 > 0xFF")
    case True
    then have u1: "uint A1 = uint A + uint M + 1 - 256"
      unfolding s1(1) uint_byte_add1 using b by (intro mod256_high) simp_all
    have c1: "flagCarry (CPU s1)" using True s1(2) by simp
    have a2: "cpu_A (CPU s2) = A + 1" using s2(1) c1 s1(1) by simp
    have c2: "flagCarry (CPU s2) = (uint A = 255)"
      using s2(2) c1 u1 b by auto
    show ?thesis using True c1 a2 c2 unfolding A_def[symmetric] by (simp add: byte_FF_uint)
  next
    case False
    then have u1: "uint A1 = uint A + uint M + 1"
      unfolding s1(1) uint_byte_add1 using b by (intro mod256_low) simp_all
    have c1: "\<not> flagCarry (CPU s1)" using False s1(2) by simp
    have a2: "cpu_A (CPU s2) = A" using s2(1) c1 s1(1) by simp
    have c2: "flagCarry (CPU s2)"
      using s2(2) c1 u1 b by auto
    show ?thesis using False c1 a2 c2 unfolding A_def[symmetric] by simp
  qed
qed

text \<open>The theorem for \<open>A = $10\<close>, \<open>M = $20\<close>: the ADC gives $31 without carry, the SBC
  gives $10 with the carry set.\<close>

theorem C7_adc_sbc_witness:
  "flagCarry (CPU (adc_console 0x10 0x20))
   \<and> map_option fst (CPU_read Mapper1_ops (adc_console 0x10 0x20) 0x10) = Some 0x20
   \<and> map_option (\<lambda>(cycles, s). (cpu_A (CPU s), flagCarry (CPU s)))
        (adc Mapper1_ops (adc_console 0x10 0x20) 0x10) = Some (0x31, False)
   \<and> map_option (\<lambda>(cycles, s). (cpu_A (CPU s), flagCarry (CPU s)))
        (adc Mapper1_ops (adc_console 0x10 0x20) 0x10 \<bind> (\<lambda>(cycles, s1). sbc Mapper1_ops s1 0x10))
       = Some (0x10, True)"
  using C7_adc_sbc [where s = "adc_console 0x10 0x20" and mp = Mapper1_ops and ?a1.0 = "0x10"
      and ?r1.0 = 0 and ?s1.0 = "snd (the (adc Mapper1_ops (adc_console 0x10 0x20) 0x10))"
      and ?a2.0 = "0x10" and ?r2.0 = 0
      and ?s2.0 = "snd (the (sbc Mapper1_ops
                     (snd (the (adc Mapper1_ops (adc_console 0x10 0x20) 0x10))) 0x10))"
      and M = "0x20"]
  by (simp add: adc_def sbc_def CPU_read_def adc_console_def example_console_def
      NewCPU_fields_def updateflagZero_def updateflagSign_def signBitSet_def)

text \<open>
  C7 as stated fails: with \<open>A = $FF\<close>, \<open>M = $01\<close> and the carry set, the ADC gives $01 with
  carry, and the SBC then gives $00, not $FF.
\<close>

theorem C7_adc_carries_counterexample:
  "flagCarry (CPU (adc_console 0xFF 0x01))
   \<and> cpu_A (CPU (adc_console 0xFF 0x01)) = 0xFF
   \<and> map_option (\<lambda>(cycles, s). cpu_A (CPU s))
        (adc Mapper1_ops (adc_console 0xFF 0x01) 0x10 \<bind> (\<lambda>(cycles, s1). sbc Mapper1_ops s1 0x10))
       = Some 0x00"
  by (simp add: adc_def sbc_def CPU_read_def adc_console_def example_console_def
      NewCPU_fields_def updateflagZero_def updateflagSign_def signBitSet_def)

subsection \<open>OAM DMA\<close>

lemma OAMDMA_upto_None:
  "OAMDMA_upto mp val n s = None \<Longrightarrow> n \<le> m \<Longrightarrow> OAMDMA_upto mp val m s = None"
proof (induction m)
  case 0
  then show ?case by simp
next
  case (Suc m)
  show ?case
  proof (cases "n = Suc m")
    case True
    then show ?thesis using Suc.prems by simp
  next
    case False
    then have "n \<le> m" using Suc.prems by simp
    then have "OAMDMA_upto mp val m s = None" using Suc by simp
    then show ?thesis by simp
  qed
qed

lemma of_nat_lt_0x100: "i < 256 \<Longrightarrow> (of_nat i :: uint16) < 0x100"
  by (simp add: word_less_nat_alt unat_of_nat)

lemma OAMDMA_loop_upto:
  assumes "i \<le> 256" "OAMDMA_upto mp val i s0 = Some si"
  shows "OAMDMA_loop mp val (of_nat i) si = OAMDMA_upto mp val 256 s0"
  using assms
proof (induction "256 - i" arbitrary: i si)
  case 0
  then have i: "i = 256" by simp
  have "\<not> (of_nat i :: uint16) < 0x100" unfolding i by simp
  then have "OAMDMA_loop mp val (of_nat i) si = Some si"
    by (subst OAMDMA_loop.simps) simp
  then show ?case using "0.prems" i by simp
next
  case (Suc d)
  then have i: "i < 256" by simp
  then have lt: "(of_nat i :: uint16) < 0x100" by (rule of_nat_lt_0x100)
  show ?case
  proof (cases "CPU_read mp si (ucast val * 0x100 + of_nat i)")
    case None
    then have "OAMDMA_upto mp val (Suc i) s0 = None" using Suc.prems by simp
    from OAMDMA_upto_None[OF this, of 256] i have "OAMDMA_upto mp val 256 s0 = None" by simp
    moreover have "OAMDMA_loop mp val (of_nat i) si = None"
      using lt None by (subst OAMDMA_loop.simps) simp
    ultimately show ?thesis by simp
  next
    case (Some r)
    obtain b s1 where r: "r = (b, s1)" by (cases r)
    let ?s' = "s1\<lparr>PPU := WriteSPR b (PPU s1)\<rparr>"
    have up: "OAMDMA_upto mp val (Suc i) s0 = Some ?s'" using Suc.prems Some r by simp
    have "d = 256 - Suc i" using Suc.hyps(2) by simp
    from Suc.hyps(1)[OF this _ up] i
    have "OAMDMA_loop mp val (of_nat (Suc i)) ?s' = OAMDMA_upto mp val 256 s0" by simp
    moreover have "OAMDMA_loop mp val (of_nat i) si = OAMDMA_loop mp val (of_nat i + 1) ?s'"
      using lt Some r by (subst OAMDMA_loop.simps) simp
    ultimately show ?thesis by (simp add: add.commute)
  qed
qed


lemma byte_of_nat_neq: "k < n \<Longrightarrow> n < 256 \<Longrightarrow> (of_nat k :: byte) \<noteq> of_nat n"
  by (simp add: word_of_nat_eq_iff take_bit_nat_eq_self)

lemma OAMDMA_upto_inv:
  assumes "OAMDMA_upto mp val n s0 = Some sn" "n \<le> 256" "sprIOAddress (PPU s0) = 0"
  shows "sprIOAddress (PPU sn) = of_nat n
     \<and> (\<forall>k<n. \<exists>sk. OAMDMA_upto mp val k s0 = Some sk
            \<and> map_option fst (CPU_read mp sk (ucast val * 0x100 + of_nat k))
                 = Some (sprRAM (PPU sn) (of_nat k)))"
  using assms
proof (induction n arbitrary: sn)
  case 0
  then show ?case by simp
next
  case (Suc n)
  from Suc.prems(1) obtain sm b s1 where
    sm: "OAMDMA_upto mp val n s0 = Some sm" and
    rd: "CPU_read mp sm (ucast val * 0x100 + of_nat n) = Some (b, s1)" and
    sn: "sn = s1\<lparr>PPU := WriteSPR b (PPU s1)\<rparr>"
    by (auto split: option.splits prod.splits)
  from Suc.IH[OF sm] Suc.prems have
    io: "sprIOAddress (PPU sm) = of_nat n" and
    bytes: "\<forall>k<n. \<exists>sk. OAMDMA_upto mp val k s0 = Some sk
            \<and> map_option fst (CPU_read mp sk (ucast val * 0x100 + of_nat k))
                 = Some (sprRAM (PPU sm) (of_nat k))"
    by simp_all
  from CPU_read_frame[OF rd] io have
    io1: "sprIOAddress (PPU s1) = of_nat n" and ram1: "sprRAM (PPU s1) = sprRAM (PPU sm)"
    by simp_all
  have n: "n < 256" using Suc.prems(2) by simp
  have io': "sprIOAddress (PPU sn) = of_nat (Suc n)"
    unfolding sn by (simp add: WriteSPR_def Let_def io1)
  have ram': "sprRAM (PPU sn) = (sprRAM (PPU sm))(of_nat n := b)"
    unfolding sn by (simp add: WriteSPR_def Let_def io1 ram1)
  have "\<exists>sk. OAMDMA_upto mp val k s0 = Some sk
            \<and> map_option fst (CPU_read mp sk (ucast val * 0x100 + of_nat k))
                 = Some (sprRAM (PPU sn) (of_nat k))" if "k < Suc n" for k
  proof (cases "k = n")
    case True
    then show ?thesis using sm rd ram' by simp
  next
    case False
    then have k: "k < n" using that by simp
    from byte_of_nat_neq[OF k n] have "sprRAM (PPU sn) (of_nat k) = sprRAM (PPU sm) (of_nat k)"
      unfolding ram' by simp
    then show ?thesis using bytes k by simp
  qed
  then show ?case using io' by blast
qed

lemma dma_addr_lt:
  assumes "(v :: byte) < 0x20" "n < 256"
  shows "(ucast v * 0x100 + of_nat n :: uint16) < 0x2000"
proof -
  have v: "unat v < 32" using assms(1) by (simp add: word_less_nat_alt)
  have "unat (ucast v * 0x100 + of_nat n :: uint16) = unat v * 256 + n"
    using v assms(2) by (simp add: unat_word_ariths unat_ucast_byte unat_of_nat)
  then show ?thesis using v assms(2) by (simp add: word_less_nat_alt)
qed

lemma ucast_of_nat_byte: "n < 256 \<Longrightarrow> (ucast (of_nat n :: byte) :: uint16) = of_nat n"
  by (simp add: word_unat_eq_iff unat_ucast_byte unat_of_nat)

lemma byte_eq_of_nat_iff: "n < 256 \<Longrightarrow> (j = (of_nat n :: byte)) = (unat j = n)"
  by (auto simp: word_unat_eq_iff unat_of_nat)

lemma OAMDMA_upto_RAM:
  assumes v: "v < 0x20" and io: "sprIOAddress (PPU s0) = 0" and n: "n \<le> 256"
  shows "OAMDMA_upto mp v n s0 =
     Some (s0\<lparr>PPU := (PPU s0)\<lparr>
        sprRAM := (\<lambda>j. if unat j < n then RAM (CPU s0) ((ucast v * 0x100 + ucast j) AND 0x7FF)
                       else sprRAM (PPU s0) j),
        sprIOAddress := of_nat n\<rparr>\<rparr>)"
  using n
proof (induction n)
  case 0
  then show ?case using io by simp
next
  case (Suc n)
  then have n: "n < 256" by simp
  let ?sn = "s0\<lparr>PPU := (PPU s0)\<lparr>
        sprRAM := (\<lambda>j. if unat j < n then RAM (CPU s0) ((ucast v * 0x100 + ucast j) AND 0x7FF)
                       else sprRAM (PPU s0) j),
        sprIOAddress := of_nat n\<rparr>\<rparr>"
  have up: "OAMDMA_upto mp v n s0 = Some ?sn" using Suc by simp
  have rd: "CPU_read mp ?sn (ucast v * 0x100 + of_nat n)
      = Some (RAM (CPU s0) ((ucast v * 0x100 + of_nat n) AND 0x7FF), ?sn)"
    using CPU_read_RAM[OF dma_addr_lt[OF v n], of mp ?sn] by simp
  have f: "(\<lambda>j. if unat j < n then RAM (CPU s0) ((ucast v * 0x100 + ucast j) AND 0x7FF)
                 else sprRAM (PPU s0) j)
            (of_nat n := RAM (CPU s0) ((ucast v * 0x100 + of_nat n) AND 0x7FF))
      = (\<lambda>j. if unat j < Suc n then RAM (CPU s0) ((ucast v * 0x100 + ucast j) AND 0x7FF)
              else sprRAM (PPU s0) j)"
    using n by (auto simp: fun_eq_iff byte_eq_of_nat_iff ucast_of_nat_byte[symmetric] less_Suc_eq)
  have g: "(of_nat n + 1 :: byte) = 1 + of_nat n" by simp
  show ?case
    by (simp only: OAMDMA_upto.simps up rd option.case prod.case)
       (simp add: WriteSPR_def Let_def f g)
qed

text \<open>
  C9. Every OAM DMA (a CPU bus write of \<open>v\<close> to $4014) that completes has first reset the
  sprite I/O address to 0: it returns 512 cycles, the byte read by pass \<open>k\<close> from
  \<open>v * $100 + k\<close> is at sprite-RAM offset \<open>k\<close> for each of the 256 passes, whatever the sprite
  I/O address was before, and the sprite I/O address is 0 again afterwards. A DMA from a
  page of the work RAM (\<open>v < $20\<close>) always completes, and the sprite RAM is then the copy of
  that page.
\<close>

theorem C9_oam_dma:
  "(\<forall>cycles s'. CPU_write mp s 0x4014 v = Some (cycles, s') \<longrightarrow>
       cycles = 512 \<and> sprIOAddress (PPU s') = 0
       \<and> (\<forall>k<256. OAMDMA_byte mp v s k = Some (sprRAM (PPU s') (of_nat k))))
   \<and> (v < 0x20 \<longrightarrow>
       CPU_write mp s 0x4014 v =
         Some (512, s\<lparr>PPU := (PPU s)\<lparr>
            sprRAM := (\<lambda>j. RAM (CPU s) ((ucast v * 0x100 + ucast j) AND 0x7FF)),
            sprIOAddress := 0\<rparr>\<rparr>))"
proof -
  let ?s0 = "s\<lparr>PPU := SetSPRAddress 0 (PPU s)\<rparr>"
  have loop: "OAMDMA_loop mp v 0 ?s0 = OAMDMA_upto mp v 256 ?s0"
    using OAMDMA_loop_upto[of 0 mp v ?s0 ?s0] by simp
  have io0: "sprIOAddress (PPU ?s0) = 0" by (simp add: SetSPRAddress_def)
  have w: "CPU_write mp s 0x4014 v = map_option (\<lambda>s'. (512, s')) (OAMDMA_upto mp v 256 ?s0)"
    by (simp add: CPU_write_def loop)
  have 1: "cycles = 512 \<and> sprIOAddress (PPU s') = 0
       \<and> (\<forall>k<256. OAMDMA_byte mp v s k = Some (sprRAM (PPU s') (of_nat k)))"
    if "CPU_write mp s 0x4014 v = Some (cycles, s')" for cycles s'
  proof -
    from that w have c: "cycles = 512" and u: "OAMDMA_upto mp v 256 ?s0 = Some s'" by auto
    from OAMDMA_upto_inv[OF u _ io0] have
      io: "sprIOAddress (PPU s') = of_nat 256" and
      bytes: "\<forall>k<256. \<exists>sk. OAMDMA_upto mp v k ?s0 = Some sk
              \<and> map_option fst (CPU_read mp sk (ucast v * 0x100 + of_nat k))
                   = Some (sprRAM (PPU s') (of_nat k))"
      by simp_all
    have "OAMDMA_byte mp v s k = Some (sprRAM (PPU s') (of_nat k))" if "k < 256" for k
      using bytes that unfolding OAMDMA_byte_def by fastforce
    then show ?thesis using c io by simp
  qed
  have 2: "CPU_write mp s 0x4014 v =
         Some (512, s\<lparr>PPU := (PPU s)\<lparr>
            sprRAM := (\<lambda>j. RAM (CPU s) ((ucast v * 0x100 + ucast j) AND 0x7FF)),
            sprIOAddress := 0\<rparr>\<rparr>)" if "v < 0x20"
  proof -
    have lt: "unat j < 256" for j :: byte
      using unsigned_less[of j, where ?'a = nat] by simp
    show ?thesis
      unfolding w OAMDMA_upto_RAM[OF that io0, of 256 mp, simplified]
      by (simp add: SetSPRAddress_def lt)
  qed
  show ?thesis using 1 2 by blast
qed

text \<open>The theorem for a DMA from page $02 after $37 was written to $2003.\<close>

theorem C9_oam_dma_witness:
  "(0x02 :: byte) < 0x20
   \<and> map_option (\<lambda>(cycles, s). (cycles, sprIOAddress (PPU s), sprRAM (PPU s) 0, sprRAM (PPU s) 0xFF))
        (CPU_write Mapper1_ops
           ((ram_console ((\<lambda>a. 0)(0x0200 := 0x11, 0x02FF := 0x22)))
              \<lparr>PPU := SetSPRAddress 0x37 NewPPU\<rparr>) 0x4014 0x02)
       = Some (512, 0, 0x11, 0x22)"
proof -
  let ?s = "(ram_console ((\<lambda>a. 0)(0x0200 := 0x11, 0x02FF := 0x22)))\<lparr>PPU := SetSPRAddress 0x37 NewPPU\<rparr>"
  have lt: "(0x02 :: byte) < 0x20" by simp
  from C9_oam_dma [where mp = Mapper1_ops and s = ?s and v = "0x02"] lt
  have "CPU_write Mapper1_ops ?s 0x4014 0x02 =
         Some (512, ?s\<lparr>PPU := (PPU ?s)\<lparr>
            sprRAM := (\<lambda>j. RAM (CPU ?s) ((ucast (0x02 :: byte) * 0x100 + ucast j) AND 0x7FF)),
            sprIOAddress := 0\<rparr>\<rparr>)"
    by blast
  then show ?thesis
    by (simp add: ram_console_def example_console_def)
qed

end
